theory Spec2Isabelle
  imports Main "HOL-Library.AList"
begin

section \<open>Data model\<close>

text \<open>
  The orchestrator of \<^verbatim>\<open>app/electron/auto-mode-service.js\<close> (class
  \<^verbatim>\<open>AutoModeService\<close>) moves features of a kanban board through their statuses.
  A feature's status is one of the strings \<^verbatim>\<open>backlog\<close>, \<^verbatim>\<open>in_progress\<close>,
  \<^verbatim>\<open>waiting_approval\<close>, \<^verbatim>\<open>verified\<close>, \<^verbatim>\<open>completed\<close>.
\<close>

datatype status = Backlog | InProgress | WaitingApproval | Verified | Completed

text \<open>
  A feature as the service reads it: \<^verbatim>\<open>id\<close> (here \<open>feature_id\<close>), \<^verbatim>\<open>status\<close>,
  \<^verbatim>\<open>skipTests\<close>, \<^verbatim>\<open>dependencies\<close>, \<^verbatim>\<open>description\<close>, and the two fields that
  \<^verbatim>\<open>runFollowUpWork\<close> adds to the copy it hands to the executor.
\<close>

record feature =
  feature_id :: string
  status :: status
  skipTests :: bool
  dependencies :: "string list"
  description :: string
  followUpPrompt :: "string option"
  followUpImages :: "string list"

text \<open>The value an executor or verifier resolves to: \<^verbatim>\<open>{ passes, message }\<close>.\<close>

record run_result =
  passes :: bool
  message :: string

text \<open>
  The errors of the service: its own two \<^verbatim>\<open>throw new Error(...)\<close> per-feature
  messages, the one of \<^verbatim>\<open>start\<close>, and whatever an external collaborator rejects with.
\<close>

datatype error =
  AlreadyRunning string
  | FeatureNotFound string
  | LoopAlreadyRunning
  | ExternalError string

fun error_message :: "error \<Rightarrow> string" where
  "error_message (AlreadyRunning featureId) = ''Feature '' @ featureId @ '' is already running''"
| "error_message (FeatureNotFound featureId) = ''Feature '' @ featureId @ '' not found''"
| "error_message LoopAlreadyRunning = ''Auto mode loop is already running''"
| "error_message (ExternalError m) = m"

text \<open>The messages handed to \<^verbatim>\<open>sendToRenderer\<close>, by their \<^verbatim>\<open>type\<close> field.\<close>

datatype event =
  FeatureStart string feature
  | FeatureComplete string bool string
  | AutoModeError string string
  | AutoModeProgress string string
  | AutoModePhase string string string

text \<open>
  Everything the service reads and writes. \<open>runningFeatures\<close> is the \<^verbatim>\<open>Map\<close> of
  the constructor, kept as the list of its keys in insertion order (the execution contexts it
  maps to carry the abort controller and the project path, which no definition below reads);
  \<open>features\<close> is the feature list held by the store behind \<^verbatim>\<open>featureLoader\<close>;
  \<open>contexts\<close> are the context files behind \<^verbatim>\<open>contextManager\<close>; \<open>sent\<close> is what
  \<^verbatim>\<open>sendToRenderer\<close> has received, oldest first.
\<close>

record world =
  runningFeatures :: "string list"
  autoLoopRunning :: bool
  maxConcurrency :: int
  features :: "feature list"
  contexts :: "(string \<times> string) list"
  sent :: "event list"

section \<open>Asynchronous functions as state transformers with errors\<close>

text \<open>
  An \<^verbatim>\<open>async\<close> function is a function from the world to an outcome (\<open>Inl\<close> a rejection,
  \<open>Inr\<close> the resolved value) and the world it leaves. What was written before a
  \<^verbatim>\<open>throw\<close> stays written.
\<close>

type_synonym 'a io = "world \<Rightarrow> (error + 'a) \<times> world"

definition return_io :: "'a \<Rightarrow> 'a io" where
  "return_io a = (\<lambda>w. (Inr a, w))"

definition throw_io :: "error \<Rightarrow> 'a io" where
  "throw_io e = (\<lambda>w. (Inl e, w))"

definition bind_io :: "'a io \<Rightarrow> ('a \<Rightarrow> 'b io) \<Rightarrow> 'b io" where
  "bind_io m k = (\<lambda>w. case m w of (Inl e, w') \<Rightarrow> (Inl e, w') | (Inr a, w') \<Rightarrow> k a w')"

text \<open>\<^verbatim>\<open>try { m } catch (error) { h error }\<close>\<close>

definition catch_io :: "'a io \<Rightarrow> (error \<Rightarrow> 'a io) \<Rightarrow> 'a io" where
  "catch_io m h = (\<lambda>w. case m w of (Inl e, w') \<Rightarrow> h e w' | (Inr a, w') \<Rightarrow> (Inr a, w'))"

text \<open>\<^verbatim>\<open>try { m } finally { cleanup }\<close>, for a cleanup that cannot throw.\<close>

definition finally_io :: "'a io \<Rightarrow> (world \<Rightarrow> world) \<Rightarrow> 'a io" where
  "finally_io m cleanup = (\<lambda>w. case m w of (r, w') \<Rightarrow> (r, cleanup w'))"

section \<open>The collaborators\<close>

text \<open>
  The executor, the verifier and the commit action are parameters of the operations below:
  arbitrary functions of the kinds that follow. Such a call is awaited, so the world it
  returns also carries whatever other tasks did in the meantime (to the store, to the
  registry, to the renderer).
\<close>

type_synonym implementFeature = "feature \<Rightarrow> run_result io"
type_synonym resumeFeatureWithContext = "feature \<Rightarrow> string \<Rightarrow> run_result io"
type_synonym verifyFeatureTests = "feature \<Rightarrow> run_result io"
type_synonym commitChangesOnly = "feature \<Rightarrow> unit io"

text \<open>
  Modelled from the spec: \<^verbatim>\<open>featureLoader.loadFeatures\<close> (services/feature-loader is not
  among the sources). Spec section 6, Store: \<^verbatim>\<open>loadItems(projectScope) -> list<Item>\<close>.
\<close>

definition loadFeatures :: "feature list io" where
  "loadFeatures = (\<lambda>w. (Inr (features w), w))"

text \<open>
  Modelled from the spec: \<^verbatim>\<open>featureLoader.updateFeatureStatus\<close> (services/feature-loader
  is not among the sources). Spec section 6, Store:
  \<^verbatim>\<open>setStatus(id, newStatus, projectScope) -> ok|fails(NotFound)\<close>.
\<close>

definition updateFeatureStatus :: "string \<Rightarrow> status \<Rightarrow> unit io" where
  "updateFeatureStatus featureId newStatus = (\<lambda>w.
     if featureId \<in> feature_id ` set (features w)
     then (Inr (), w\<lparr>features :=
             map (\<lambda>f. if feature_id f = featureId then f\<lparr>status := newStatus\<rparr> else f)
               (features w)\<rparr>)
     else (Inl (FeatureNotFound featureId), w))"

text \<open>
  Modelled from the spec: \<^verbatim>\<open>contextManager.readContextFile\<close> and
  \<^verbatim>\<open>contextManager.writeToContextFile\<close> (services/context-manager is not among the
  sources). Spec section 6, Context Log: \<^verbatim>\<open>read(scope, id) -> string\<close>,
  \<^verbatim>\<open>append(scope, id, text) -> ok\<close>, append-only.
\<close>

definition readContextFile :: "string \<Rightarrow> string io" where
  "readContextFile featureId =
     (\<lambda>w. (Inr (case map_of (contexts w) featureId of None \<Rightarrow> [] | Some c \<Rightarrow> c), w))"

definition writeToContextFile :: "string \<Rightarrow> string \<Rightarrow> unit io" where
  "writeToContextFile featureId content = (\<lambda>w.
     (Inr (), w\<lparr>contexts :=
        AList.update featureId
          ((case map_of (contexts w) featureId of None \<Rightarrow> [] | Some c \<Rightarrow> c) @ content)
          (contexts w)\<rparr>))"

definition sendToRenderer :: "event \<Rightarrow> unit io" where
  "sendToRenderer ev = (\<lambda>w. (Inr (), w\<lparr>sent := sent w @ [ev]\<rparr>))"

text \<open>The status the store holds for an id (of the first feature with that id).\<close>

definition status_of :: "string \<Rightarrow> world \<Rightarrow> status option" where
  "status_of featureId w =
     map_option status (find (\<lambda>f. feature_id f = featureId) (features w))"

section \<open>The registry of running features\<close>

text \<open>\<^verbatim>\<open>this.runningFeatures.has / set / delete / size\<close> on the keys.\<close>

definition has_running :: "string \<Rightarrow> world \<Rightarrow> bool" where
  "has_running featureId w = (featureId \<in> set (runningFeatures w))"

definition set_running :: "string \<Rightarrow> world \<Rightarrow> world" where
  "set_running featureId w =
     w\<lparr>runningFeatures :=
         (if featureId \<in> set (runningFeatures w) then runningFeatures w
          else runningFeatures w @ [featureId])\<rparr>"

definition delete_running :: "string \<Rightarrow> world \<Rightarrow> world" where
  "delete_running featureId w = w\<lparr>runningFeatures := removeAll featureId (runningFeatures w)\<rparr>"

definition running_size :: "world \<Rightarrow> int" where
  "running_size w = int (length (runningFeatures w))"

section \<open>runFeature\<close>

text \<open>
  \<^verbatim>\<open>runFeature\<close>, lines 112-194. \<open>runFeature_register\<close> is the part before the
  \<^verbatim>\<open>try\<close>: the check and the registration. \<open>runFeature_before\<close> is the body of the
  \<^verbatim>\<open>try\<close> up to the call of the executor and \<open>runFeature_after\<close> what follows that call;
  \<open>runFeature_run\<close> is the whole \<^verbatim>\<open>try/catch/finally\<close>.
\<close>

definition runFeature_register :: "string \<Rightarrow> unit io" where
  "runFeature_register featureId = (\<lambda>w.
     if has_running featureId w then throw_io (AlreadyRunning featureId) w
     else (Inr (), set_running featureId w))"

definition runFeature_before :: "string \<Rightarrow> feature io" where
  "runFeature_before featureId =
     bind_io loadFeatures (\<lambda>fs.
       case find (\<lambda>f. feature_id f = featureId) fs of
         None \<Rightarrow> throw_io (FeatureNotFound featureId)
       | Some feature \<Rightarrow>
           bind_io (updateFeatureStatus featureId InProgress) (\<lambda>_.
           bind_io (sendToRenderer (FeatureStart (feature_id feature) feature)) (\<lambda>_.
           return_io feature)))"

definition runFeature_after :: "feature \<Rightarrow> run_result \<Rightarrow> bool io" where
  "runFeature_after feature result =
     (let newStatus =
            (if passes result then (if skipTests feature then WaitingApproval else Verified)
             else Backlog)
      in bind_io (updateFeatureStatus (feature_id feature) newStatus) (\<lambda>_.
         bind_io (sendToRenderer
                    (FeatureComplete (feature_id feature) (passes result) (message result))) (\<lambda>_.
         return_io (passes result))))"

definition runFeature_run :: "implementFeature \<Rightarrow> string \<Rightarrow> bool io" where
  "runFeature_run impl featureId =
     finally_io
       (catch_io
          (bind_io (runFeature_before featureId) (\<lambda>feature.
           bind_io (impl feature) (\<lambda>result.
           runFeature_after feature result)))
          (\<lambda>error.
             bind_io (sendToRenderer (AutoModeError (error_message error) featureId)) (\<lambda>_.
             throw_io error)))
       (delete_running featureId)"

definition runFeature :: "implementFeature \<Rightarrow> string \<Rightarrow> bool io" where
  "runFeature impl featureId =
     bind_io (runFeature_register featureId) (\<lambda>_. runFeature_run impl featureId)"

section \<open>verifyFeature\<close>

text \<open>\<^verbatim>\<open>verifyFeature\<close>, lines 199-273, split like \<open>runFeature\<close>.\<close>

definition verifyFeature_register :: "string \<Rightarrow> unit io" where
  "verifyFeature_register featureId = (\<lambda>w.
     if has_running featureId w then throw_io (AlreadyRunning featureId) w
     else (Inr (), set_running featureId w))"

definition verifyFeature_before :: "string \<Rightarrow> feature io" where
  "verifyFeature_before featureId =
     bind_io loadFeatures (\<lambda>fs.
       case find (\<lambda>f. feature_id f = featureId) fs of
         None \<Rightarrow> throw_io (FeatureNotFound featureId)
       | Some feature \<Rightarrow>
           bind_io (sendToRenderer (FeatureStart (feature_id feature) feature)) (\<lambda>_.
           return_io feature))"

definition verifyFeature_after :: "string \<Rightarrow> feature \<Rightarrow> run_result \<Rightarrow> bool io" where
  "verifyFeature_after featureId feature result =
     (let newStatus = (if passes result then Verified else InProgress)
      in bind_io (updateFeatureStatus featureId newStatus) (\<lambda>_.
         bind_io (sendToRenderer
                    (FeatureComplete (feature_id feature) (passes result) (message result))) (\<lambda>_.
         return_io (passes result))))"

definition verifyFeature_run :: "verifyFeatureTests \<Rightarrow> string \<Rightarrow> bool io" where
  "verifyFeature_run verifier featureId =
     finally_io
       (catch_io
          (bind_io (verifyFeature_before featureId) (\<lambda>feature.
           bind_io (verifier feature) (\<lambda>result.
           verifyFeature_after featureId feature result)))
          (\<lambda>error.
             bind_io (sendToRenderer (AutoModeError (error_message error) featureId)) (\<lambda>_.
             throw_io error)))
       (delete_running featureId)"

definition verifyFeature :: "verifyFeatureTests \<Rightarrow> string \<Rightarrow> bool io" where
  "verifyFeature verifier featureId =
     bind_io (verifyFeature_register featureId) (\<lambda>_. verifyFeature_run verifier featureId)"

section \<open>resumeFeature\<close>

text \<open>
  \<^verbatim>\<open>resumeFeature\<close>, lines 278-413. \<open>resumeFeature_before\<close> is the body of the
  \<^verbatim>\<open>try\<close> up to the first call of \<^verbatim>\<open>resumeFeatureWithContext\<close>; it returns the
  feature and the context read.
\<close>

definition resumeFeature_register :: "string \<Rightarrow> unit io" where
  "resumeFeature_register featureId = (\<lambda>w.
     if has_running featureId w then throw_io (AlreadyRunning featureId) w
     else (Inr (), set_running featureId w))"

definition resumeFeature_before :: "string \<Rightarrow> (feature \<times> string) io" where
  "resumeFeature_before featureId =
     bind_io loadFeatures (\<lambda>fs.
       case find (\<lambda>f. feature_id f = featureId) fs of
         None \<Rightarrow> throw_io (FeatureNotFound featureId)
       | Some feature \<Rightarrow>
           bind_io (sendToRenderer (FeatureStart (feature_id feature) feature)) (\<lambda>_.
           bind_io (readContextFile featureId) (\<lambda>previousContext.
           return_io (feature, previousContext))))"

definition maxAttempts :: nat where
  "maxAttempts = 3"

text \<open>
  The texts of retry \<open>n\<close> written to the context file and sent as progress. A string is
  a list of bytes here, so the emoji in front of each text is its four bytes
  \<^verbatim>\<open>F0 9F 94 84\<close>. The source interpolates the number; \<open>show_nat\<close> prints the
  numbers the loop can reach.
\<close>

definition show_nat :: "nat \<Rightarrow> string" where
  "show_nat n = (if n < 10 then [char_of (48 + n)] else ''?'')"

definition retry_emoji :: string where
  "retry_emoji = [CHR 0xF0, CHR 0x9F, CHR 0x94, CHR 0x84]"

definition retry_context_text :: "nat \<Rightarrow> string" where
  "retry_context_text attempts =
     [CHR 0x0A, CHR 0x0A] @ retry_emoji @ '' Auto-retry #'' @ show_nat attempts
       @ '' - Continuing implementation...'' @ [CHR 0x0A, CHR 0x0A]"

definition retry_progress_text :: "nat \<Rightarrow> string" where
  "retry_progress_text attempts =
     [CHR 0x0A] @ retry_emoji @ '' Auto-retry #'' @ show_nat attempts
       @ '' - Agent ended early, continuing...'' @ [CHR 0x0A]"

text \<open>
  \<open>retry_before\<close> is one pass through the body of the \<^verbatim>\<open>while\<close> loop (lines 334-375) up
  to the call of the executor: it reloads the features and, when the feature is still
  \<^verbatim>\<open>in_progress\<close>, writes the retry text, sends the progress message and returns the
  context for the next call (\<open>Some\<close>); otherwise it is the \<^verbatim>\<open>break\<close> (\<open>None\<close>).
\<close>

definition retry_before :: "feature \<Rightarrow> string \<Rightarrow> nat \<Rightarrow> string option io" where
  "retry_before feature featureId attempts =
     bind_io loadFeatures (\<lambda>updatedFeatures.
       case find (\<lambda>f. feature_id f = featureId) updatedFeatures of
         None \<Rightarrow> return_io None
       | Some updatedFeature \<Rightarrow>
           if status updatedFeature = InProgress
           then bind_io (writeToContextFile featureId (retry_context_text (attempts + 1))) (\<lambda>_.
                bind_io (sendToRenderer
                           (AutoModeProgress (feature_id feature)
                              (retry_progress_text (attempts + 1)))) (\<lambda>_.
                bind_io (readContextFile featureId) (\<lambda>retryContext.
                return_io (Some retryContext))))
           else return_io None)"

text \<open>
  The loop itself, on the two variables it updates. It returns \<open>finalResult\<close> together
  with \<open>attempts\<close>: the counter is incremented once in each pass that calls the executor
  again, and in no other place.
\<close>

function retryLoop ::
  "resumeFeatureWithContext \<Rightarrow> feature \<Rightarrow> string \<Rightarrow> run_result \<Rightarrow> nat \<Rightarrow> (run_result \<times> nat) io"
where
  "retryLoop resume feature featureId finalResult attempts w =
     (if \<not> passes finalResult \<and> attempts < maxAttempts
      then (case retry_before feature featureId attempts w of
              (Inl e, w1) \<Rightarrow> (Inl e, w1)
            | (Inr None, w1) \<Rightarrow> (Inr (finalResult, attempts), w1)
            | (Inr (Some retryContext), w1) \<Rightarrow>
                (case resume feature retryContext w1 of
                   (Inl e, w2) \<Rightarrow> (Inl e, w2)
                 | (Inr r, w2) \<Rightarrow> retryLoop resume feature featureId r (attempts + 1) w2))
      else (Inr (finalResult, attempts), w))"
  by pat_completeness auto
termination
  by (relation "measure (\<lambda>(resume, feature, featureId, finalResult, attempts, w).
                   maxAttempts - attempts)") auto

declare retryLoop.simps [simp del]

definition resumeFeature_after :: "string \<Rightarrow> feature \<Rightarrow> run_result \<Rightarrow> bool io" where
  "resumeFeature_after featureId feature finalResult =
     (let newStatus =
            (if passes finalResult then (if skipTests feature then WaitingApproval else Verified)
             else InProgress)
      in bind_io (updateFeatureStatus featureId newStatus) (\<lambda>_.
         bind_io (sendToRenderer
                    (FeatureComplete (feature_id feature) (passes finalResult)
                       (message finalResult))) (\<lambda>_.
         return_io (passes finalResult))))"

definition resumeFeature_run :: "resumeFeatureWithContext \<Rightarrow> string \<Rightarrow> bool io" where
  "resumeFeature_run resume featureId =
     finally_io
       (catch_io
          (bind_io (resumeFeature_before featureId) (\<lambda>(feature, previousContext).
           bind_io (resume feature previousContext) (\<lambda>result.
           bind_io (retryLoop resume feature featureId result 0) (\<lambda>(finalResult, attempts).
           resumeFeature_after featureId feature finalResult))))
          (\<lambda>error.
             bind_io (sendToRenderer (AutoModeError (error_message error) featureId)) (\<lambda>_.
             throw_io error)))
       (delete_running featureId)"

definition resumeFeature :: "resumeFeatureWithContext \<Rightarrow> string \<Rightarrow> bool io" where
  "resumeFeature resume featureId =
     bind_io (resumeFeature_register featureId) (\<lambda>_. resumeFeature_run resume featureId)"

section \<open>The periodic loop\<close>

text \<open>
  \<^verbatim>\<open>start\<close>, lines 46-62 (\<^verbatim>\<open>maxConcurrency || 3\<close>: an absent or zero argument gives
  3), \<^verbatim>\<open>stop\<close>, lines 67-96, \<^verbatim>\<open>getStatus\<close>, lines 101-107, and
  \<^verbatim>\<open>stopFeature\<close>, lines 621-637.
\<close>

definition start :: "int option \<Rightarrow> unit io" where
  "start mc = (\<lambda>w.
     if autoLoopRunning w then throw_io LoopAlreadyRunning w
     else (Inr (), w\<lparr>autoLoopRunning := True,
                      maxConcurrency := (case mc of None \<Rightarrow> 3
                                         | Some n \<Rightarrow> if n = 0 then 3 else n)\<rparr>))"

definition stop :: "world \<Rightarrow> world" where
  "stop w = w\<lparr>autoLoopRunning := False, runningFeatures := []\<rparr>"

definition getStatus :: "world \<Rightarrow> bool \<times> string list \<times> int" where
  "getStatus w = (autoLoopRunning w, runningFeatures w, running_size w)"

definition stopFeature :: "string \<Rightarrow> world \<Rightarrow> bool \<times> world" where
  "stopFeature featureId w =
     (if \<not> has_running featureId w then (False, w) else (True, delete_running featureId w))"

text \<open>
  \<^verbatim>\<open>startFeatureAsync\<close>, lines 483-556. Here the registration is the first statement of
  the \<^verbatim>\<open>try\<close>; \<open>startFeatureAsync_before\<close> is what follows it up to the call of the
  executor. The \<^verbatim>\<open>catch\<close> does not throw again.
\<close>

definition startFeatureAsync_before :: "feature \<Rightarrow> unit io" where
  "startFeatureAsync_before feature =
     bind_io (updateFeatureStatus (feature_id feature) InProgress) (\<lambda>_.
     sendToRenderer (FeatureStart (feature_id feature) feature))"

definition startFeatureAsync_after :: "feature \<Rightarrow> run_result \<Rightarrow> unit io" where
  "startFeatureAsync_after feature result =
     (let newStatus =
            (if passes result then (if skipTests feature then WaitingApproval else Verified)
             else Backlog)
      in bind_io (updateFeatureStatus (feature_id feature) newStatus) (\<lambda>_.
         sendToRenderer
           (FeatureComplete (feature_id feature) (passes result) (message result))))"

definition startFeatureAsync_run :: "implementFeature \<Rightarrow> feature \<Rightarrow> unit io" where
  "startFeatureAsync_run impl feature =
     finally_io
       (catch_io
          (bind_io (startFeatureAsync_before feature) (\<lambda>_.
           bind_io (impl feature) (\<lambda>result.
           startFeatureAsync_after feature result)))
          (\<lambda>error. sendToRenderer (AutoModeError (error_message error) (feature_id feature))))
       (delete_running (feature_id feature))"

definition startFeatureAsync :: "implementFeature \<Rightarrow> feature \<Rightarrow> unit io" where
  "startFeatureAsync impl feature = (\<lambda>w.
     if has_running (feature_id feature) w then return_io () w
     else startFeatureAsync_run impl feature (set_running (feature_id feature) w))"

text \<open>
  \<^verbatim>\<open>checkAndStartFeatures\<close>, lines 438-478. The loop at its end calls
  \<^verbatim>\<open>startFeatureAsync\<close> for each chosen feature without awaiting it, so each call runs up
  to its first \<^verbatim>\<open>await\<close>: the check and the registration. \<open>startFeatures\<close> is that loop;
  it returns the features whose task went on (was not skipped), in order, and the world with
  their registrations. The rest of each task is \<open>startFeatureAsync_run\<close>.

  The count is read before the features are loaded and the loop runs after that
  \<^verbatim>\<open>await\<close>. \<open>checkAndStartFeatures_dispatch\<close> is the part after it, given the number of
  slots computed before it; \<open>checkAndStartFeatures\<close> is a tick during whose load no other
  operation touches the registry, so that both parts see the same world.
\<close>

definition availableSlots :: "world \<Rightarrow> int" where
  "availableSlots w = maxConcurrency w - running_size w"

fun startFeatures :: "feature list \<Rightarrow> world \<Rightarrow> feature list \<times> world" where
  "startFeatures [] w = ([], w)"
| "startFeatures (feature # rest) w =
     (if has_running (feature_id feature) w then startFeatures rest w
      else (case startFeatures rest (set_running (feature_id feature) w) of
              (started, w') \<Rightarrow> (feature # started, w')))"

text \<open>\<^verbatim>\<open>xs.slice(0, end)\<close> for an integer \<open>end\<close>: a negative one counts from the end.\<close>

definition slice_from_0 :: "int \<Rightarrow> 'a list \<Rightarrow> 'a list" where
  "slice_from_0 end xs =
     take (nat (if end < 0 then max (int (length xs) + end) 0 else end)) xs"

definition checkAndStartFeatures_dispatch :: "int \<Rightarrow> world \<Rightarrow> feature list \<times> world" where
  "checkAndStartFeatures_dispatch slots w =
     (let backlogFeatures = filter (\<lambda>f. status f = Backlog) (features w)
      in if backlogFeatures = [] then ([], w)
         else startFeatures (slice_from_0 slots backlogFeatures) w)"

definition checkAndStartFeatures :: "world \<Rightarrow> feature list \<times> world" where
  "checkAndStartFeatures w =
     (if availableSlots w \<le> 0 then ([], w)
      else checkAndStartFeatures_dispatch (availableSlots w) w)"

section \<open>followUpFeature\<close>

text \<open>
  \<^verbatim>\<open>followUpFeature\<close>, lines 643-681, and \<^verbatim>\<open>runFollowUpWork\<close>, lines 686-772.
  \<open>followUpFeature\<close> composes the registration with the work it starts in the background.
\<close>

definition follow_up_text :: "string \<Rightarrow> string" where
  "follow_up_text prompt =
     [CHR 0x0A, CHR 0x0A] @ ''## Follow-up Instructions'' @ [CHR 0x0A, CHR 0x0A] @ prompt"

definition followUpFeature_register :: "string \<Rightarrow> unit io" where
  "followUpFeature_register featureId = (\<lambda>w.
     if has_running featureId w then throw_io (AlreadyRunning featureId) w
     else (Inr (), set_running featureId w))"

definition runFollowUpWork_before :: "string \<Rightarrow> string \<Rightarrow> (feature \<times> string) io" where
  "runFollowUpWork_before featureId prompt =
     bind_io loadFeatures (\<lambda>fs.
       case find (\<lambda>f. feature_id f = featureId) fs of
         None \<Rightarrow> throw_io (FeatureNotFound featureId)
       | Some feature \<Rightarrow>
           bind_io (updateFeatureStatus featureId InProgress) (\<lambda>_.
           bind_io (sendToRenderer (FeatureStart (feature_id feature) feature)) (\<lambda>_.
           bind_io (readContextFile featureId) (\<lambda>previousContext.
           bind_io (writeToContextFile featureId (follow_up_text prompt)) (\<lambda>_.
           return_io (feature, previousContext @ follow_up_text prompt))))))"

definition runFollowUpWork_after :: "feature \<Rightarrow> run_result \<Rightarrow> unit io" where
  "runFollowUpWork_after feature result =
     (let newStatus =
            (if passes result then (if skipTests feature then WaitingApproval else Verified)
             else InProgress)
      in bind_io (updateFeatureStatus (feature_id feature) newStatus) (\<lambda>_.
         sendToRenderer
           (FeatureComplete (feature_id feature) (passes result) (message result))))"

definition runFollowUpWork ::
  "resumeFeatureWithContext \<Rightarrow> string \<Rightarrow> string \<Rightarrow> string list \<Rightarrow> unit io" where
  "runFollowUpWork resume featureId prompt imagePaths =
     finally_io
       (catch_io
          (bind_io (runFollowUpWork_before featureId prompt) (\<lambda>(feature, followUpContext).
           bind_io (resume (feature\<lparr>followUpPrompt := Some prompt, followUpImages := imagePaths\<rparr>)
                      followUpContext) (\<lambda>result.
           runFollowUpWork_after feature result)))
          (\<lambda>error. sendToRenderer (AutoModeError (error_message error) featureId)))
       (delete_running featureId)"

definition followUpFeature ::
  "resumeFeatureWithContext \<Rightarrow> string \<Rightarrow> string \<Rightarrow> string list \<Rightarrow> unit io" where
  "followUpFeature resume featureId prompt imagePaths =
     bind_io (followUpFeature_register featureId) (\<lambda>_.
     catch_io (runFollowUpWork resume featureId prompt imagePaths)
       (\<lambda>error w. (Inr (), delete_running featureId w)))"

section \<open>commitFeature\<close>

text \<open>
  \<^verbatim>\<open>commitFeature\<close>, lines 778-845. It registers without looking whether the id is
  registered already (\<^verbatim>\<open>Map.set\<close> on a present key keeps the key).
\<close>

definition commitFeature_before :: "string \<Rightarrow> feature io" where
  "commitFeature_before featureId =
     bind_io loadFeatures (\<lambda>fs.
       case find (\<lambda>f. feature_id f = featureId) fs of
         None \<Rightarrow> throw_io (FeatureNotFound featureId)
       | Some feature \<Rightarrow>
           bind_io (sendToRenderer
                      (FeatureStart (feature_id feature)
                         (feature\<lparr>description := ''Committing changes...''\<rparr>))) (\<lambda>_.
           bind_io (sendToRenderer
                      (AutoModePhase featureId ''action'' ''Committing changes to git...'')) (\<lambda>_.
           return_io feature)))"

definition commitFeature_after :: "string \<Rightarrow> feature \<Rightarrow> unit io" where
  "commitFeature_after featureId feature =
     bind_io (updateFeatureStatus featureId Verified) (\<lambda>_.
     sendToRenderer
       (FeatureComplete (feature_id feature) True ''Changes committed successfully''))"

definition commitFeature_run :: "commitChangesOnly \<Rightarrow> string \<Rightarrow> unit io" where
  "commitFeature_run commit featureId =
     finally_io
       (catch_io
          (bind_io (commitFeature_before featureId) (\<lambda>feature.
           bind_io (commit feature) (\<lambda>_.
           commitFeature_after featureId feature)))
          (\<lambda>error.
             bind_io (sendToRenderer (AutoModeError (error_message error) featureId)) (\<lambda>_.
             throw_io error)))
       (delete_running featureId)"

definition commitFeature :: "commitChangesOnly \<Rightarrow> string \<Rightarrow> unit io" where
  "commitFeature commit featureId = (\<lambda>w. commitFeature_run commit featureId (set_running featureId w))"

section \<open>Dependencies\<close>

text \<open>
  Modelled from the spec: \<^verbatim>\<open>blockingDependencies\<close> (the package
  \<^verbatim>\<open>@automaker/dependency-resolver\<close> is not among the sources; only the graph view calls
  it). Spec section 4.1: an id is blocking unless the dependency item exists in
  \<^verbatim>\<open>allItems\<close> and its status is \<^verbatim>\<open>completed\<close> or \<^verbatim>\<open>verified\<close>; ids absent from
  \<^verbatim>\<open>allItems\<close> are dropped, not blocking. An item is ready iff nothing blocks it and its
  own status is \<^verbatim>\<open>backlog\<close>.
\<close>

definition blockingDependencies :: "feature \<Rightarrow> feature list \<Rightarrow> string list" where
  "blockingDependencies item allItems =
     filter (\<lambda>depId.
        case find (\<lambda>f. feature_id f = depId) allItems of
          None \<Rightarrow> False
        | Some dep \<Rightarrow> status dep \<noteq> Completed \<and> status dep \<noteq> Verified)
       (dependencies item)"

definition ready :: "feature \<Rightarrow> feature list \<Rightarrow> bool" where
  "ready item allItems = (blockingDependencies item allItems = [] \<and> status item = Backlog)"

section \<open>A collaborator restricted to some worlds\<close>

text \<open>
  To say in which worlds an operation calls a collaborator, the collaborator is replaced by
  one that answers as before in the worlds that satisfy \<open>P\<close> and throws in all others.
  An operation that behaves the same, for every collaborator, with the restricted one in its
  place calls its collaborator in worlds that satisfy \<open>P\<close> only.
\<close>

definition only_when :: "(world \<Rightarrow> bool) \<Rightarrow> 'a io \<Rightarrow> 'a io" where
  "only_when P m = (\<lambda>w. if P w then m w else throw_io (ExternalError ''called too early'') w)"


section \<open>Example features, worlds and collaborators\<close>

definition mk_feature :: "string \<Rightarrow> status \<Rightarrow> bool \<Rightarrow> string list \<Rightarrow> feature" where
  "mk_feature i st sk deps =
     \<lparr>feature_id = i, status = st, skipTests = sk, dependencies = deps,
      description = ''work on '' @ i, followUpPrompt = None, followUpImages = []\<rparr>"

definition mk_world :: "string list \<Rightarrow> int \<Rightarrow> feature list \<Rightarrow> world" where
  "mk_world running mc fs =
     \<lparr>runningFeatures = running, autoLoopRunning = True, maxConcurrency = mc,
      features = fs, contexts = [], sent = []\<rparr>"

text \<open>X depends on Y; both are in the backlog and nothing runs.\<close>

definition feature_X :: feature where "feature_X = mk_feature ''X'' Backlog False [''Y'']"
definition feature_Y :: feature where "feature_Y = mk_feature ''Y'' Backlog False []"
definition world_XY :: world where "world_XY = mk_world [] 3 [feature_X, feature_Y]"

text \<open>One slot, taken by A; B waits in the backlog.\<close>

definition feature_A :: feature where "feature_A = mk_feature ''A'' InProgress False []"
definition feature_B :: feature where "feature_B = mk_feature ''B'' Backlog False []"
definition world_busy :: world where "world_busy = mk_world [''A''] 1 [feature_A, feature_B]"

text \<open>Z is in progress and not running; W waits for approval and skips tests.\<close>

definition feature_Z :: feature where "feature_Z = mk_feature ''Z'' InProgress False []"
definition world_Z :: world where "world_Z = mk_world [] 3 [feature_Z]"

definition feature_W :: feature where "feature_W = mk_feature ''W'' WaitingApproval True []"
definition world_W :: world where "world_W = mk_world [] 3 [feature_W]"

text \<open>
  An executor whose session ends early every time: it does not pass, leaves the store alone
  and tells the renderer that it was called.
\<close>

definition result_early :: run_result where
  "result_early = \<lparr>passes = False, message = ''ended early''\<rparr>"

definition ended_early :: resumeFeatureWithContext where
  "ended_early feature context = (\<lambda>w.
     (Inr result_early,
      w\<lparr>sent := sent w @ [AutoModeProgress (feature_id feature) ''executor called'']\<rparr>))"

text \<open>An executor that passes and reports the status it finds in the store when called.\<close>

definition reports_status :: resumeFeatureWithContext where
  "reports_status feature context = (\<lambda>w.
     (Inr \<lparr>passes = True,
           message = (if status_of (feature_id feature) w = Some InProgress
                      then ''in_progress'' else ''not in_progress'')\<rparr>, w))"

definition impl_passes :: implementFeature where
  "impl_passes feature = return_io \<lparr>passes = True, message = ''done''\<rparr>"

definition impl_fails :: implementFeature where
  "impl_fails feature = return_io \<lparr>passes = False, message = ''tests fail''\<rparr>"

definition impl_throws :: implementFeature where
  "impl_throws feature = throw_io (ExternalError ''agent crashed'')"

definition commit_ok :: commitChangesOnly where
  "commit_ok feature = return_io ()"

definition commit_throws :: commitChangesOnly where
  "commit_throws feature = throw_io (ExternalError ''nothing to commit'')"

section \<open>Auxiliary lemmas\<close>

lemmas io_defs = return_io_def throw_io_def bind_io_def catch_io_def finally_io_def

lemmas service_defs = io_defs loadFeatures_def updateFeatureStatus_def readContextFile_def
  writeToContextFile_def sendToRenderer_def status_of_def has_running_def set_running_def
  delete_running_def running_size_def

lemmas example_defs = mk_feature_def mk_world_def feature_X_def feature_Y_def world_XY_def
  feature_A_def feature_B_def world_busy_def feature_Z_def world_Z_def feature_W_def world_W_def
  result_early_def ended_early_def reports_status_def impl_passes_def impl_fails_def
  impl_throws_def commit_ok_def commit_throws_def

subsection \<open>The combinators\<close>

lemma bind_io_Inr:
  "bind_io m k w = (Inr b, w') \<longleftrightarrow> (\<exists>a w0. m w = (Inr a, w0) \<and> k a w0 = (Inr b, w'))"
  by (auto simp: bind_io_def split: prod.splits sum.splits)

lemma catch_rethrow_Inr:
  "catch_io m (\<lambda>e. bind_io (h e) (\<lambda>_. throw_io e)) w = (Inr a, w') \<longleftrightarrow> m w = (Inr a, w')"
  by (auto simp: catch_io_def bind_io_def throw_io_def split: prod.splits sum.splits)

lemma finally_io_eq:
  "finally_io m c w = (r, w') \<longleftrightarrow> (\<exists>w0. m w = (r, w0) \<and> w' = c w0)"
  by (auto simp: finally_io_def split: prod.splits)

lemma finally_io_fst: "fst (finally_io m c w) = fst (m w)"
  by (simp add: finally_io_def split: prod.splits)

lemma finally_delete_running:
  "\<not> has_running featureId (snd (finally_io m (delete_running featureId) w))"
  by (simp add: finally_io_def has_running_def delete_running_def split: prod.splits)

lemma catch_send_resolves:
  "fst (catch_io m (\<lambda>e. sendToRenderer (ev e)) w) = Inr ()"
  by (auto simp: catch_io_def sendToRenderer_def split: prod.splits sum.splits)

subsection \<open>The store\<close>

lemma find_feature_id:
  "find (\<lambda>f. feature_id f = featureId) fs = Some feature \<Longrightarrow>
     feature_id feature = featureId \<and> feature \<in> set fs"
  by (induction fs) (auto split: if_splits)

lemma find_updated:
  "featureId \<in> feature_id ` set fs \<Longrightarrow>
   map_option status (find (\<lambda>f. feature_id f = featureId)
      (map (\<lambda>f. if feature_id f = featureId then f\<lparr>status := st\<rparr> else f) fs)) = Some st"
proof (induction fs)
  case Nil
  then show ?case by simp
next
  case (Cons f fs)
  show ?case
  proof (cases "feature_id f = featureId")
    case True
    then show ?thesis by simp
  next
    case False
    with Cons show ?thesis by simp
  qed
qed

lemma updateFeatureStatus_result:
  assumes a: "updateFeatureStatus featureId st w = (Inr u, w')"
  shows "status_of featureId w' = Some st \<and> runningFeatures w' = runningFeatures w
       \<and> sent w' = sent w \<and> contexts w' = contexts w \<and> maxConcurrency w' = maxConcurrency w"
proof -
  from a have m: "featureId \<in> feature_id ` set (features w)"
    by (auto simp: updateFeatureStatus_def split: if_splits)
  with a have w': "w' = w\<lparr>features :=
     map (\<lambda>f. if feature_id f = featureId then f\<lparr>status := st\<rparr> else f) (features w)\<rparr>"
    by (simp add: updateFeatureStatus_def)
  show ?thesis using find_updated[OF m, of st] by (simp add: w' status_of_def)
qed

lemma updateFeatureStatus_in_store:
  "featureId \<in> feature_id ` set (features w) \<Longrightarrow>
     \<exists>w'. updateFeatureStatus featureId st w = (Inr (), w')"
  by (simp add: updateFeatureStatus_def)

lemma status_of_sent [simp]: "status_of featureId (w\<lparr>sent := s\<rparr>) = status_of featureId w"
  by (simp add: status_of_def)

lemma status_of_running [simp]:
  "status_of featureId (w\<lparr>runningFeatures := r\<rparr>) = status_of featureId w"
  by (simp add: status_of_def)

lemma status_of_contexts [simp]:
  "status_of featureId (w\<lparr>contexts := c\<rparr>) = status_of featureId w"
  by (simp add: status_of_def)

lemma status_of_delete_running [simp]:
  "status_of featureId (delete_running g w) = status_of featureId w"
  by (simp add: delete_running_def)

text \<open>The two shapes of "write the new status, then send the completion message".\<close>

lemma write_then_send_value:
  assumes "bind_io (updateFeatureStatus featureId st)
             (\<lambda>_. bind_io (sendToRenderer ev) (\<lambda>_. return_io v)) w = (Inr p, w')"
  shows "p = v \<and> status_of featureId w' = Some st"
proof -
  from assms obtain w0 where u: "updateFeatureStatus featureId st w = (Inr (), w0)"
    and r: "p = v" "w' = w0\<lparr>sent := sent w0 @ [ev]\<rparr>"
    by (auto simp: io_defs sendToRenderer_def split: sum.splits prod.splits)
  from updateFeatureStatus_result[OF u] r show ?thesis by simp
qed

lemma write_then_send_value_ok:
  assumes "featureId \<in> feature_id ` set (features w)"
  shows "\<exists>w'. bind_io (updateFeatureStatus featureId st)
                 (\<lambda>_. bind_io (sendToRenderer ev) (\<lambda>_. return_io v)) w = (Inr v, w')
            \<and> status_of featureId w' = Some st"
proof -
  from updateFeatureStatus_in_store[OF assms] obtain w0 where
    u: "updateFeatureStatus featureId st w = (Inr (), w0)" by blast
  have "bind_io (updateFeatureStatus featureId st)
          (\<lambda>_. bind_io (sendToRenderer ev) (\<lambda>_. return_io v)) w
        = (Inr v, w0\<lparr>sent := sent w0 @ [ev]\<rparr>)"
    using u by (simp add: io_defs sendToRenderer_def)
  with updateFeatureStatus_result[OF u] show ?thesis by simp
qed

lemma write_then_send_ok:
  assumes "featureId \<in> feature_id ` set (features w)"
  shows "\<exists>w'. bind_io (updateFeatureStatus featureId st) (\<lambda>_. sendToRenderer ev) w = (Inr (), w')
            \<and> status_of featureId w' = Some st"
proof -
  from updateFeatureStatus_in_store[OF assms] obtain w0 where
    u: "updateFeatureStatus featureId st w = (Inr (), w0)" by blast
  have "bind_io (updateFeatureStatus featureId st) (\<lambda>_. sendToRenderer ev) w
        = (Inr (), w0\<lparr>sent := sent w0 @ [ev]\<rparr>)"
    using u by (simp add: io_defs sendToRenderer_def)
  with updateFeatureStatus_result[OF u] show ?thesis by simp
qed

subsection \<open>What holds when the executor is called\<close>

lemma runFeature_before_result:
  assumes "runFeature_before featureId w = (Inr feature, w1)"
  shows "feature_id feature = featureId \<and> status_of featureId w1 = Some InProgress
           \<and> find (\<lambda>f. feature_id f = featureId) (features w) = Some feature"
proof -
  from assms obtain f where f: "find (\<lambda>f. feature_id f = featureId) (features w) = Some f"
    by (auto simp: runFeature_before_def io_defs loadFeatures_def split: option.splits)
  from assms f obtain w0 where
    u: "updateFeatureStatus featureId InProgress w = (Inr (), w0)"
    and r: "feature = f" "w1 = w0\<lparr>sent := sent w0 @ [FeatureStart (feature_id f) f]\<rparr>"
    by (auto simp: runFeature_before_def io_defs loadFeatures_def sendToRenderer_def
        split: sum.splits prod.splits)
  from updateFeatureStatus_result[OF u] find_feature_id[OF f] f r show ?thesis by simp
qed




lemma retry_before_stops:
  assumes "status_of featureId w \<noteq> Some InProgress"
  shows "retry_before feature featureId n w = (Inr None, w)"
  using assms
  by (auto simp: retry_before_def io_defs loadFeatures_def status_of_def
        split: option.splits)

lemma retry_before_continues:
  assumes "status_of featureId w = Some InProgress"
  shows "\<exists>c w1. retry_before feature featureId n w = (Inr (Some c), w1)"
  using assms
  by (auto simp: retry_before_def io_defs loadFeatures_def sendToRenderer_def status_of_def
        readContextFile_def writeToContextFile_def
        split: option.splits if_splits)

subsection \<open>The retry loop\<close>

lemma retryLoop_stops:
  assumes "passes r \<or> \<not> n < 3 \<or> status_of featureId w \<noteq> Some InProgress"
  shows "retryLoop resume feature featureId r n w = (Inr (r, n), w)"
  using assms by (auto simp: retryLoop.simps maxAttempts_def retry_before_stops)

lemma retryLoop_continues:
  assumes "\<not> passes r" "n < 3" "retry_before feature featureId n w = (Inr (Some c), w1)"
  shows "retryLoop resume feature featureId r n w =
           (case resume feature c w1 of
              (Inl e, w2) \<Rightarrow> (Inl e, w2)
            | (Inr r2, w2) \<Rightarrow> retryLoop resume feature featureId r2 (n + 1) w2)"
  using assms by (subst retryLoop.simps) (simp add: maxAttempts_def)

lemma retryLoop_attempts:
  "retryLoop resume feature featureId r n w = (Inr (r', n'), w') \<Longrightarrow>
     n \<le> n' \<and> n' \<le> max n 3
     \<and> (passes r' \<or> n' = max n 3 \<or> status_of featureId w' \<noteq> Some InProgress)"
proof (induction resume feature featureId r n w rule: retryLoop.induct)
  case (1 resume feature featureId finalResult attempts w)
  show ?case
  proof (cases "\<not> passes finalResult \<and> attempts < maxAttempts")
    case False
    with "1.prems" show ?thesis by (auto simp: retryLoop.simps maxAttempts_def)
  next
    case True
    obtain o1 w1 where rb: "retry_before feature featureId attempts w = (o1, w1)"
      by (cases "retry_before feature featureId attempts w")
    show ?thesis
    proof (cases o1)
      case (Inl e)
      with True rb "1.prems" show ?thesis by (simp add: retryLoop.simps)
    next
      case (Inr oc)
      show ?thesis
      proof (cases oc)
        case None
        have ns: "status_of featureId w \<noteq> Some InProgress"
        proof
          assume "status_of featureId w = Some InProgress"
          from retry_before_continues[OF this, of feature attempts] rb Inr None
          show False by simp
        qed
        then have "w1 = w"
          using rb retry_before_stops[of featureId w feature attempts] by simp
        with ns True rb Inr None "1.prems" show ?thesis
          by (auto simp: retryLoop.simps maxAttempts_def)
      next
        case (Some c)
        obtain o2 w2 where rs: "resume feature c w1 = (o2, w2)"
          by (cases "resume feature c w1")
        show ?thesis
        proof (cases o2)
          case (Inl e)
          with True rb Inr Some rs "1.prems" show ?thesis by (simp add: retryLoop.simps)
        next
          case (Inr r2)
          from True rb \<open>o1 = Inr oc\<close> Some rs Inr "1.prems"
          have "retryLoop resume feature featureId r2 (attempts + 1) w2 = (Inr (r', n'), w')"
            by (simp add: retryLoop.simps[of resume feature featureId finalResult attempts w])
          note ih = "1.IH"[OF True rb[symmetric] \<open>o1 = Inr oc\<close> Some rs[symmetric] Inr this]
          from ih True show ?thesis by (auto simp: maxAttempts_def)
        qed
      qed
    qed
  qed
qed

lemma resumeFeature_run_not_passed:
  assumes "resumeFeature_run resume featureId w = (Inr False, w')"
  shows "status_of featureId w' = Some InProgress"
proof -
  from assms obtain wb where
    b: "bind_io (resumeFeature_before featureId) (\<lambda>(feature, previousContext).
           bind_io (resume feature previousContext) (\<lambda>result.
           bind_io (retryLoop resume feature featureId result 0) (\<lambda>(finalResult, attempts).
           resumeFeature_after featureId feature finalResult))) w = (Inr False, wb)"
    and w': "w' = delete_running featureId wb"
    unfolding resumeFeature_run_def finally_io_eq catch_rethrow_Inr by blast
  from b obtain feature finalResult w3 where
    a: "resumeFeature_after featureId feature finalResult w3 = (Inr False, wb)"
    by (auto simp: bind_io_Inr split: prod.splits)
  then have "\<not> passes finalResult \<and> status_of featureId wb = Some InProgress"
    unfolding resumeFeature_after_def Let_def
    using write_then_send_value[of featureId _ _ "passes finalResult" w3 False wb]
    by (auto split: if_splits)
  with w' show ?thesis by simp
qed

subsection \<open>The admission tick\<close>

lemma startFeatures_subset:
  "startFeatures fs w = (started, w') \<Longrightarrow>
     set started \<subseteq> set fs \<and> (\<forall>f \<in> set started. \<not> has_running (feature_id f) w)
     \<and> features w' = features w \<and> maxConcurrency w' = maxConcurrency w"
proof (induction fs arbitrary: w started w')
  case Nil
  then show ?case by simp
next
  case (Cons f fs)
  show ?case
  proof (cases "has_running (feature_id f) w")
    case True
    with Cons.prems have "startFeatures fs w = (started, w')" by simp
    from Cons.IH[OF this] show ?thesis by auto
  next
    case False
    obtain st1 w1 where r: "startFeatures fs (set_running (feature_id f) w) = (st1, w1)"
      by (cases "startFeatures fs (set_running (feature_id f) w)")
    from Cons.prems False r have s: "started = f # st1" "w' = w1" by auto
    from Cons.IH[OF r] have ih: "set st1 \<subseteq> set fs"
      "\<forall>g \<in> set st1. \<not> has_running (feature_id g) (set_running (feature_id f) w)"
      "features w1 = features (set_running (feature_id f) w)"
      "maxConcurrency w1 = maxConcurrency (set_running (feature_id f) w)" by auto
    from ih(2) have "\<forall>g \<in> set st1. \<not> has_running (feature_id g) w"
      by (auto simp: has_running_def set_running_def split: if_splits)
    with s ih False show ?thesis by (auto simp: set_running_def)
  qed
qed

lemma startFeatures_size:
  "running_size (snd (startFeatures fs w)) \<le> running_size w + int (length fs)"
proof (induction fs arbitrary: w)
  case Nil
  then show ?case by simp
next
  case (Cons f fs)
  show ?case
  proof (cases "has_running (feature_id f) w")
    case True
    with Cons[of w] show ?thesis by simp
  next
    case False
    have "running_size (set_running (feature_id f) w) = running_size w + 1"
      using False by (simp add: running_size_def set_running_def has_running_def)
    with Cons[of "set_running (feature_id f) w"] False show ?thesis
      by (auto split: prod.splits)
  qed
qed

lemma dispatch_size:
  assumes "0 \<le> slots"
  shows "running_size (snd (checkAndStartFeatures_dispatch slots w)) \<le> running_size w + slots"
proof -
  let ?sel = "slice_from_0 slots (filter (\<lambda>f. status f = Backlog) (features w))"
  have "int (length ?sel) \<le> slots" using assms by (simp add: slice_from_0_def)
  with startFeatures_size[of ?sel w]
  have "running_size (snd (startFeatures ?sel w)) \<le> running_size w + slots" by simp
  then show ?thesis using assms by (simp add: checkAndStartFeatures_dispatch_def Let_def)
qed

lemma dispatch_frame:
  "maxConcurrency (snd (checkAndStartFeatures_dispatch slots w)) = maxConcurrency w
   \<and> features (snd (checkAndStartFeatures_dispatch slots w)) = features w"
proof -
  let ?sel = "slice_from_0 slots (filter (\<lambda>f. status f = Backlog) (features w))"
  obtain st w' where r: "startFeatures ?sel w = (st, w')" by (cases "startFeatures ?sel w")
  from startFeatures_subset[OF r] r show ?thesis
    by (auto simp: checkAndStartFeatures_dispatch_def Let_def)
qed

subsection \<open>Operations with a restricted collaborator\<close>




lemma only_when_holds: "P w \<Longrightarrow> only_when P m w = m w"
  by (simp add: only_when_def)








lemma resumeFeature_run_tied_to_loop:
  assumes b: "resumeFeature_before featureId w = (Inr (feature, c), w1)"
    and f: "resume feature c w1 = (Inr r1, w2)"
    and l: "retryLoop resume feature featureId r1 0 w2 = (Inr (rf, k), w3)"
    and s: "featureId \<in> feature_id ` set (features w3)"
  shows "\<exists>w4. resumeFeature_after featureId feature rf w3 = (Inr (passes rf), w4)
           \<and> resumeFeature_run resume featureId w = (Inr (passes rf), delete_running featureId w4)
           \<and> status_of featureId w4 =
               Some (if passes rf then (if skipTests feature then WaitingApproval else Verified)
                     else InProgress)"
proof -
  let ?st = "if passes rf then (if skipTests feature then WaitingApproval else Verified)
             else InProgress"
  from write_then_send_value_ok[OF s, of ?st
      "FeatureComplete (feature_id feature) (passes rf) (message rf)" "passes rf"]
  obtain w4 where a: "resumeFeature_after featureId feature rf w3 = (Inr (passes rf), w4)"
    and st: "status_of featureId w4 = Some ?st"
    unfolding resumeFeature_after_def Let_def by blast
  have "resumeFeature_run resume featureId w = (Inr (passes rf), delete_running featureId w4)"
    using b f l a
    by (simp add: resumeFeature_run_def bind_io_def catch_io_def finally_io_def)
  with a st show ?thesis by blast
qed

section \<open>The claims\<close>

subsection \<open>C1: what the admission loop selects\<close>

text \<open>
  C1, as amended. Every feature that a tick of \<^verbatim>\<open>checkAndStartFeatures\<close> starts has status
  \<^verbatim>\<open>backlog\<close> in the feature list the tick loaded, is among the first
  \<^verbatim>\<open>availableSlots\<close> backlog features of that list in store order, and had no handle in the
  registry. The tick does not look at \<^verbatim>\<open>dependencies\<close>.
\<close>

theorem admission_selects_backlog:
  "f \<in> set (fst (checkAndStartFeatures w)) \<Longrightarrow>
     status f = Backlog \<and> f \<in> set (features w)
     \<and> f \<in> set (take (nat (availableSlots w)) (filter (\<lambda>g. status g = Backlog) (features w)))
     \<and> \<not> has_running (feature_id f) w"
proof -
  assume a: "f \<in> set (fst (checkAndStartFeatures w))"
  let ?bs = "filter (\<lambda>g. status g = Backlog) (features w)"
  let ?sel = "take (nat (availableSlots w)) ?bs"
  from a have f: "f \<in> set (fst (startFeatures ?sel w))"
    by (auto simp: checkAndStartFeatures_def checkAndStartFeatures_dispatch_def Let_def
        slice_from_0_def split: if_splits)
  obtain st w' where r: "startFeatures ?sel w = (st, w')" by (cases "startFeatures ?sel w")
  from startFeatures_subset[OF r] f r
  have sel: "f \<in> set ?sel" and nr: "\<not> has_running (feature_id f) w" by auto
  from sel have "f \<in> set ?bs" by (rule in_set_takeD)
  with sel nr show ?thesis by simp
qed

text \<open>The amended C1 at the world of X and Y: the tick starts X, a backlog feature.\<close>

theorem admission_selects_backlog_witness:
  "feature_X \<in> set (fst (checkAndStartFeatures world_XY))
   \<and> status feature_X = Backlog \<and> feature_X \<in> set (features world_XY)
   \<and> \<not> has_running ''X'' world_XY"
proof -
  have h: "feature_X \<in> set (fst (checkAndStartFeatures world_XY))"
    by (simp add: checkAndStartFeatures_def checkAndStartFeatures_dispatch_def
        slice_from_0_def availableSlots_def Let_def example_defs service_defs)
  from admission_selects_backlog[OF h] h show ?thesis
    by (simp add: feature_X_def mk_feature_def)
qed

text \<open>
  C1 as stated fails: X declares the dependency Y, Y is present with status
  \<^verbatim>\<open>backlog\<close>, so Y blocks X and X is not ready; the tick starts X all the same.
\<close>

theorem admission_starts_blocked_feature:
  "feature_X \<in> set (fst (checkAndStartFeatures world_XY))
   \<and> dependencies feature_X = [''Y''] \<and> status_of ''Y'' world_XY = Some Backlog
   \<and> blockingDependencies feature_X (features world_XY) = [''Y'']
   \<and> \<not> ready feature_X (features world_XY)"
  by (simp add: checkAndStartFeatures_def checkAndStartFeatures_dispatch_def slice_from_0_def
      availableSlots_def blockingDependencies_def ready_def Let_def example_defs service_defs)

subsection \<open>C2: the number of handles\<close>

text \<open>
  C2, as amended. The part of a tick of \<^verbatim>\<open>checkAndStartFeatures\<close> that follows the load
  adds at most \<^verbatim>\<open>availableSlots\<close> handles and leaves \<^verbatim>\<open>maxConcurrency\<close> as it is. So
  a tick during whose load no other operation registers never takes the number of handles
  above \<^verbatim>\<open>maxConcurrency\<close>: after it the count is at most the larger of
  \<^verbatim>\<open>maxConcurrency\<close> and the count before it. The manual operations register their handle
  without looking at \<^verbatim>\<open>maxConcurrency\<close>.
\<close>

theorem admission_tick_keeps_bound:
  "(0 \<le> slots \<longrightarrow>
      running_size (snd (checkAndStartFeatures_dispatch slots v)) \<le> running_size v + slots)
   \<and> maxConcurrency (snd (checkAndStartFeatures_dispatch slots v)) = maxConcurrency v
   \<and> running_size (snd (checkAndStartFeatures w)) \<le> max (maxConcurrency w) (running_size w)
   \<and> maxConcurrency (snd (checkAndStartFeatures w)) = maxConcurrency w"
proof -
  have "running_size (snd (checkAndStartFeatures w)) \<le> max (maxConcurrency w) (running_size w)"
  proof (cases "availableSlots w \<le> 0")
    case True
    then show ?thesis by (simp add: checkAndStartFeatures_def)
  next
    case False
    then have "0 \<le> availableSlots w" by simp
    from dispatch_size[OF this, of w]
    have "running_size (snd (checkAndStartFeatures_dispatch (availableSlots w) w))
            \<le> maxConcurrency w"
      by (simp add: availableSlots_def)
    with False show ?thesis by (simp add: checkAndStartFeatures_def)
  qed
  moreover have "maxConcurrency (snd (checkAndStartFeatures w)) = maxConcurrency w"
    using dispatch_frame[of "availableSlots w" w] by (simp add: checkAndStartFeatures_def)
  ultimately show ?thesis using dispatch_size[of slots v] dispatch_frame[of slots v] by simp
qed

text \<open>
  The amended C2 at two ticks: with one slot and X and Y in the backlog only X is registered;
  with the one slot taken by A the tick registers nothing.
\<close>

theorem admission_tick_keeps_bound_witness:
  "(0::int) \<le> 1
   \<and> runningFeatures (snd (checkAndStartFeatures_dispatch 1 world_XY)) = [''X'']
   \<and> running_size (snd (checkAndStartFeatures_dispatch 1 world_XY)) \<le> running_size world_XY + 1
   \<and> runningFeatures (snd (checkAndStartFeatures world_busy)) = [''A'']
   \<and> running_size (snd (checkAndStartFeatures world_busy)) \<le> 1"
proof -
  have e: "runningFeatures (snd (checkAndStartFeatures_dispatch 1 world_XY)) = [''X'']
           \<and> runningFeatures (snd (checkAndStartFeatures world_busy)) = [''A'']"
    by (simp add: checkAndStartFeatures_def checkAndStartFeatures_dispatch_def slice_from_0_def
        availableSlots_def Let_def example_defs service_defs)
  have m: "max (maxConcurrency world_busy) (running_size world_busy) = 1"
    by (simp add: example_defs service_defs)
  from admission_tick_keeps_bound[of 1 world_XY world_busy] e m show ?thesis by simp
qed

text \<open>
  C2 as stated fails: with \<^verbatim>\<open>maxConcurrency\<close> 1 and A running, \<^verbatim>\<open>runFeature\<close> for B
  registers B and reaches the call of the executor with two handles in the registry.
\<close>

theorem manual_run_exceeds_maxConcurrency:
  "running_size world_busy \<le> maxConcurrency world_busy
   \<and> fst (runFeature_register ''B'' world_busy) = Inr ()
   \<and> fst (runFeature_before ''B'' (snd (runFeature_register ''B'' world_busy))) = Inr feature_B
   \<and> running_size (snd (runFeature_before ''B'' (snd (runFeature_register ''B'' world_busy)))) = 2
   \<and> maxConcurrency (snd (runFeature_before ''B'' (snd (runFeature_register ''B'' world_busy)))) = 1"
  by (simp add: runFeature_register_def runFeature_before_def example_defs service_defs)

subsection \<open>C3: the retries of a resume\<close>

text \<open>
  C3. In \<^verbatim>\<open>resumeFeature\<close>, after the first call of the executor: (1) when the last result
  passes, or three retries have been made, or the status re-read from the store is not
  \<^verbatim>\<open>in_progress\<close>, the loop ends there, with that result and without touching anything;
  (2) when the last result does not pass, fewer than three retries have been made and the
  re-read status is \<^verbatim>\<open>in_progress\<close>, the loop calls the executor once more and goes on with
  the counter one higher; (3) the loop, started at 0, ends with a counter of at most 3, so
  there are at most three retries; (4) when the resume resolves without having passed, the
  status in the store is \<^verbatim>\<open>in_progress\<close>; (5) the whole \<^verbatim>\<open>try/catch/finally\<close> of
  \<^verbatim>\<open>resumeFeature\<close> is this loop and nothing else between the first call and the final
  write: when the feature is found, the first call resolves, the loop started at 0 on the
  world the first call left ends with result \<open>rf\<close> after \<open>k\<close> retries, and the feature is
  still in the store, then \<open>k\<close> is at most 3, the loop has ended because \<open>rf\<close> passes or
  three retries were made or the status was no longer \<^verbatim>\<open>in_progress\<close>, and the operation
  resolves with \<^verbatim>\<open>passes\<close> of \<open>rf\<close> in the world the loop left, with only the final
  status written (\<^verbatim>\<open>in_progress\<close> when \<open>rf\<close> does not pass), the completion message
  sent and the handle deleted.
\<close>

theorem resume_retries_bounded:
  "(passes r \<or> \<not> n < 3 \<or> status_of featureId w \<noteq> Some InProgress \<longrightarrow>
      retryLoop resume feature featureId r n w = (Inr (r, n), w))
   \<and> (\<not> passes r \<and> n < 3 \<and> status_of featureId w = Some InProgress \<longrightarrow>
        (\<exists>c w1. retry_before feature featureId n w = (Inr (Some c), w1)
           \<and> retryLoop resume feature featureId r n w =
               (case resume feature c w1 of
                  (Inl e, w2) \<Rightarrow> (Inl e, w2)
                | (Inr r2, w2) \<Rightarrow> retryLoop resume feature featureId r2 (n + 1) w2)))
   \<and> (retryLoop resume feature featureId r 0 w = (Inr (r', n'), w') \<longrightarrow> n' \<le> 3)
   \<and> (resumeFeature_run resume featureId w = (Inr False, w'') \<longrightarrow>
        status_of featureId w'' = Some InProgress)
   \<and> (resumeFeature_before featureId w = (Inr (feature, c0), v1)
        \<and> resume feature c0 v1 = (Inr r1, v2)
        \<and> retryLoop resume feature featureId r1 0 v2 = (Inr (rf, k), v3)
        \<and> featureId \<in> feature_id ` set (features v3) \<longrightarrow>
      k \<le> 3
      \<and> (passes rf \<or> k = 3 \<or> status_of featureId v3 \<noteq> Some InProgress)
      \<and> (\<exists>v4. resumeFeature_after featureId feature rf v3 = (Inr (passes rf), v4)
            \<and> resumeFeature_run resume featureId w
                = (Inr (passes rf), delete_running featureId v4)
            \<and> status_of featureId v4 =
                Some (if passes rf
                      then (if skipTests feature then WaitingApproval else Verified)
                      else InProgress)))"
proof -
  have c1: "passes r \<or> \<not> n < 3 \<or> status_of featureId w \<noteq> Some InProgress \<longrightarrow>
      retryLoop resume feature featureId r n w = (Inr (r, n), w)"
    using retryLoop_stops[of r n featureId w resume feature] by blast
  have c2: "\<not> passes r \<and> n < 3 \<and> status_of featureId w = Some InProgress \<longrightarrow>
        (\<exists>c w1. retry_before feature featureId n w = (Inr (Some c), w1)
           \<and> retryLoop resume feature featureId r n w =
               (case resume feature c w1 of
                  (Inl e, w2) \<Rightarrow> (Inl e, w2)
                | (Inr r2, w2) \<Rightarrow> retryLoop resume feature featureId r2 (n + 1) w2))"
  proof
    assume a: "\<not> passes r \<and> n < 3 \<and> status_of featureId w = Some InProgress"
    then obtain c w1 where rb: "retry_before feature featureId n w = (Inr (Some c), w1)"
      using retry_before_continues[of featureId w feature n] by blast
    from a rb retryLoop_continues[of r n feature featureId w c w1 resume]
    show "\<exists>c w1. retry_before feature featureId n w = (Inr (Some c), w1)
           \<and> retryLoop resume feature featureId r n w =
               (case resume feature c w1 of
                  (Inl e, w2) \<Rightarrow> (Inl e, w2)
                | (Inr r2, w2) \<Rightarrow> retryLoop resume feature featureId r2 (n + 1) w2)"
      by blast
  qed
  have c3: "retryLoop resume feature featureId r 0 w = (Inr (r', n'), w') \<longrightarrow> n' \<le> 3"
    using retryLoop_attempts[of resume feature featureId r 0 w r' n' w'] by simp
  have c4: "resumeFeature_run resume featureId w = (Inr False, w'') \<longrightarrow>
        status_of featureId w'' = Some InProgress"
    using resumeFeature_run_not_passed[of resume featureId w w''] by blast
  have c5: "resumeFeature_before featureId w = (Inr (feature, c0), v1)
        \<and> resume feature c0 v1 = (Inr r1, v2)
        \<and> retryLoop resume feature featureId r1 0 v2 = (Inr (rf, k), v3)
        \<and> featureId \<in> feature_id ` set (features v3) \<longrightarrow>
      k \<le> 3
      \<and> (passes rf \<or> k = 3 \<or> status_of featureId v3 \<noteq> Some InProgress)
      \<and> (\<exists>v4. resumeFeature_after featureId feature rf v3 = (Inr (passes rf), v4)
            \<and> resumeFeature_run resume featureId w
                = (Inr (passes rf), delete_running featureId v4)
            \<and> status_of featureId v4 =
                Some (if passes rf
                      then (if skipTests feature then WaitingApproval else Verified)
                      else InProgress))"
  proof
    assume a: "resumeFeature_before featureId w = (Inr (feature, c0), v1)
        \<and> resume feature c0 v1 = (Inr r1, v2)
        \<and> retryLoop resume feature featureId r1 0 v2 = (Inr (rf, k), v3)
        \<and> featureId \<in> feature_id ` set (features v3)"
    then have l: "retryLoop resume feature featureId r1 0 v2 = (Inr (rf, k), v3)" by simp
    from retryLoop_attempts[OF l]
    have "k \<le> 3" "passes rf \<or> k = 3 \<or> status_of featureId v3 \<noteq> Some InProgress"
      by simp_all
    moreover from a resumeFeature_run_tied_to_loop[of featureId w feature c0 v1 resume r1 v2
        rf k v3]
    have "\<exists>v4. resumeFeature_after featureId feature rf v3 = (Inr (passes rf), v4)
            \<and> resumeFeature_run resume featureId w
                = (Inr (passes rf), delete_running featureId v4)
            \<and> status_of featureId v4 =
                Some (if passes rf
                      then (if skipTests feature then WaitingApproval else Verified)
                      else InProgress)"
      by blast
    ultimately show "k \<le> 3
      \<and> (passes rf \<or> k = 3 \<or> status_of featureId v3 \<noteq> Some InProgress)
      \<and> (\<exists>v4. resumeFeature_after featureId feature rf v3 = (Inr (passes rf), v4)
            \<and> resumeFeature_run resume featureId w
                = (Inr (passes rf), delete_running featureId v4)
            \<and> status_of featureId v4 =
                Some (if passes rf
                      then (if skipTests feature then WaitingApproval else Verified)
                      else InProgress))"
      by blast
  qed
  from c1 c2 c3 c4 c5 show ?thesis by blast
qed

text \<open>
  C3 at the scenario of the specification: Z is \<^verbatim>\<open>in_progress\<close> and the executor ends
  early every time. The loop started at 3 stops at once; started at 0 it ends with the
  counter at 3; the resume finds Z, its first call resolves, the loop that follows ends
  after three retries, and the resume resolves with \<^verbatim>\<open>passes\<close> false, the executor
  having been called four times (once and three retries), Z left \<^verbatim>\<open>in_progress\<close> and the
  handle deleted. On B, which is in the backlog, the same executor is called once: the loop
  makes no retry.
\<close>

theorem resume_retries_bounded_witness:
  "retryLoop ended_early feature_Z ''Z'' result_early 3 world_Z = (Inr (result_early, 3), world_Z)
   \<and> fst (retryLoop ended_early feature_Z ''Z'' result_early 0 world_Z) = Inr (result_early, 3)
   \<and> fst (resumeFeature_run ended_early ''Z'' world_Z) = Inr False
   \<and> length (filter (\<lambda>ev. ev = AutoModeProgress ''Z'' ''executor called'')
         (sent (snd (resumeFeature_run ended_early ''Z'' world_Z)))) = 4
   \<and> status_of ''Z'' (snd (resumeFeature_run ended_early ''Z'' world_Z)) = Some InProgress
   \<and> fst (resumeFeature_before ''Z'' world_Z) = Inr (feature_Z, [])
   \<and> fst (retryLoop ended_early feature_Z ''Z'' result_early 0
            (snd (ended_early feature_Z [] (snd (resumeFeature_before ''Z'' world_Z)))))
        = Inr (result_early, 3)
   \<and> \<not> has_running ''Z'' (snd (resumeFeature_run ended_early ''Z'' world_Z))
   \<and> length (filter (\<lambda>ev. ev = AutoModeProgress ''B'' ''executor called'')
         (sent (snd (resumeFeature_run ended_early ''B'' world_busy)))) = 1"
proof -
  let ?v1 = "snd (resumeFeature_before ''Z'' world_Z)"
  let ?v2 = "snd (ended_early feature_Z [] ?v1)"
  let ?v3 = "snd (retryLoop ended_early feature_Z ''Z'' result_early 0 ?v2)"
  have l: "fst (retryLoop ended_early feature_Z ''Z'' result_early 0 world_Z)
             = Inr (result_early, 3)"
    by (simp add: retryLoop.simps retry_before_def maxAttempts_def retry_context_text_def
        retry_progress_text_def retry_emoji_def show_nat_def example_defs service_defs)
  have e: "fst (resumeFeature_run ended_early ''Z'' world_Z) = Inr False
     \<and> length (filter (\<lambda>ev. ev = AutoModeProgress ''Z'' ''executor called'')
         (sent (snd (resumeFeature_run ended_early ''Z'' world_Z)))) = 4"
    by (simp add: resumeFeature_run_def resumeFeature_before_def resumeFeature_after_def
        retryLoop.simps retry_before_def maxAttempts_def retry_context_text_def
        retry_progress_text_def retry_emoji_def show_nat_def example_defs service_defs)
  have eB: "length (filter (\<lambda>ev. ev = AutoModeProgress ''B'' ''executor called'')
         (sent (snd (resumeFeature_run ended_early ''B'' world_busy)))) = 1"
    by (simp add: resumeFeature_run_def resumeFeature_before_def resumeFeature_after_def
        retryLoop.simps retry_before_def maxAttempts_def example_defs service_defs)
  from e have r: "resumeFeature_run ended_early ''Z'' world_Z
                  = (Inr False, snd (resumeFeature_run ended_early ''Z'' world_Z))"
    by (simp add: prod_eq_iff)
  from l have l': "retryLoop ended_early feature_Z ''Z'' result_early 0 world_Z
      = (Inr (result_early, 3), snd (retryLoop ended_early feature_Z ''Z'' result_early 0 world_Z))"
    by (simp add: prod_eq_iff)
  have b: "fst (resumeFeature_before ''Z'' world_Z) = Inr (feature_Z, [])"
    by (simp add: resumeFeature_before_def example_defs service_defs)
  then have h1: "resumeFeature_before ''Z'' world_Z = (Inr (feature_Z, []), ?v1)"
    by (simp add: prod_eq_iff)
  have h2: "ended_early feature_Z [] ?v1 = (Inr result_early, ?v2)"
    by (simp add: ended_early_def)
  have l3: "fst (retryLoop ended_early feature_Z ''Z'' result_early 0 ?v2)
              = Inr (result_early, 3)"
    by (simp add: resumeFeature_before_def retryLoop.simps retry_before_def maxAttempts_def
        retry_context_text_def retry_progress_text_def retry_emoji_def show_nat_def
        example_defs service_defs)
  then have h3: "retryLoop ended_early feature_Z ''Z'' result_early 0 ?v2
                   = (Inr (result_early, 3), ?v3)"
    by (simp add: prod_eq_iff)
  have h4: "''Z'' \<in> feature_id ` set (features ?v3)"
    by (simp add: resumeFeature_before_def retryLoop.simps retry_before_def maxAttempts_def
        retry_context_text_def retry_progress_text_def retry_emoji_def show_nat_def
        example_defs service_defs)
  note t3 = resume_retries_bounded[where r = result_early and n = 3 and featureId = "''Z''"
      and w = world_Z and resume = ended_early and feature = feature_Z
      and r' = result_early and n' = 3
      and w'' = "snd (resumeFeature_run ended_early ''Z'' world_Z)"]
  note t0 = resume_retries_bounded[where r = result_early and n = 0 and featureId = "''Z''"
      and w = world_Z and resume = ended_early and feature = feature_Z
      and r' = result_early and n' = 3
      and w' = "snd (retryLoop ended_early feature_Z ''Z'' result_early 0 world_Z)"
      and w'' = "snd (resumeFeature_run ended_early ''Z'' world_Z)"
      and ?c0.0 = "[]" and ?v1.0 = ?v1 and ?r1.0 = result_early and ?v2.0 = ?v2
      and rf = result_early and k = 3 and ?v3.0 = ?v3]
  from t3 have "retryLoop ended_early feature_Z ''Z'' result_early 3 world_Z
                  = (Inr (result_early, 3), world_Z)" by simp
  moreover from t3 r
  have "status_of ''Z'' (snd (resumeFeature_run ended_early ''Z'' world_Z)) = Some InProgress"
    by simp
  moreover from t0 l' have "(3::nat) \<le> 3" by simp
  moreover from t0 h1 h2 h3 h4
  have "\<exists>v4. resumeFeature_run ended_early ''Z'' world_Z
                = (Inr (passes result_early), delete_running ''Z'' v4)"
    by blast
  then have "\<not> has_running ''Z'' (snd (resumeFeature_run ended_early ''Z'' world_Z))"
    by (auto simp: has_running_def delete_running_def)
  ultimately show ?thesis using l e eB b l3 by simp
qed

subsection \<open>C4: the status after a fresh run\<close>

text \<open>
  C4. For \<^verbatim>\<open>runFeature\<close> and for a run dispatched by the admission loop
  (\<^verbatim>\<open>startFeatureAsync\<close>): when the feature has no handle yet, the part before the executor
  succeeds, the executor resolves with a result and the feature is still in the store, then
  the status in the store after the run is \<^verbatim>\<open>waiting_approval\<close> if the result passes and
  the feature has \<^verbatim>\<open>skipTests\<close>, \<^verbatim>\<open>verified\<close> if it passes and has not,
  \<^verbatim>\<open>backlog\<close> if it does not pass.
\<close>

theorem fresh_run_final_status:
  "(\<not> has_running featureId w
      \<and> runFeature_before featureId (set_running featureId w) = (Inr feature, w1)
      \<and> impl feature w1 = (Inr result, w2)
      \<and> featureId \<in> feature_id ` set (features w2) \<longrightarrow>
    fst (runFeature impl featureId w) = Inr (passes result)
    \<and> status_of featureId (snd (runFeature impl featureId w)) =
        Some (if passes result then (if skipTests feature then WaitingApproval else Verified)
              else Backlog))
   \<and> (\<not> has_running (feature_id g) v
        \<and> startFeatureAsync_before g (set_running (feature_id g) v) = (Inr (), v1)
        \<and> impl g v1 = (Inr res, v2)
        \<and> feature_id g \<in> feature_id ` set (features v2) \<longrightarrow>
      status_of (feature_id g) (snd (startFeatureAsync impl g v)) =
        Some (if passes res then (if skipTests g then WaitingApproval else Verified)
              else Backlog))"
proof (rule conjI; rule impI)
  assume a: "\<not> has_running featureId w
      \<and> runFeature_before featureId (set_running featureId w) = (Inr feature, w1)
      \<and> impl feature w1 = (Inr result, w2)
      \<and> featureId \<in> feature_id ` set (features w2)"
  let ?st = "if passes result then (if skipTests feature then WaitingApproval else Verified)
             else Backlog"
  from a have b: "runFeature_before featureId (set_running featureId w) = (Inr feature, w1)"
    and s: "featureId \<in> feature_id ` set (features w2)" by simp_all
  from runFeature_before_result[OF b] have fid: "feature_id feature = featureId" by simp
  from write_then_send_value_ok[OF s, of ?st
      "FeatureComplete (feature_id feature) (passes result) (message result)" "passes result"]
  obtain w3 where r: "runFeature_after feature result w2 = (Inr (passes result), w3)"
    and st: "status_of featureId w3 = Some ?st"
    unfolding runFeature_after_def Let_def fid by blast
  have "runFeature impl featureId w = (Inr (passes result), delete_running featureId w3)"
    using a r
    by (simp add: runFeature_def runFeature_register_def runFeature_run_def bind_io_def
        catch_io_def finally_io_def)
  with st show "fst (runFeature impl featureId w) = Inr (passes result)
    \<and> status_of featureId (snd (runFeature impl featureId w)) = Some ?st" by simp
next
  assume a: "\<not> has_running (feature_id g) v
        \<and> startFeatureAsync_before g (set_running (feature_id g) v) = (Inr (), v1)
        \<and> impl g v1 = (Inr res, v2)
        \<and> feature_id g \<in> feature_id ` set (features v2)"
  let ?st = "if passes res then (if skipTests g then WaitingApproval else Verified)
             else Backlog"
  from a have s: "feature_id g \<in> feature_id ` set (features v2)" by simp
  from write_then_send_ok[OF s, of ?st
      "FeatureComplete (feature_id g) (passes res) (message res)"]
  obtain v3 where r: "startFeatureAsync_after g res v2 = (Inr (), v3)"
    and st: "status_of (feature_id g) v3 = Some ?st"
    unfolding startFeatureAsync_after_def Let_def by blast
  have "startFeatureAsync impl g v = (Inr (), delete_running (feature_id g) v3)"
    using a r
    by (simp add: startFeatureAsync_def startFeatureAsync_run_def bind_io_def catch_io_def
        finally_io_def)
  with st show "status_of (feature_id g) (snd (startFeatureAsync impl g v)) = Some ?st"
    by simp
qed

text \<open>
  C4 at two runs: \<^verbatim>\<open>runFeature\<close> of W (which skips tests) with an executor that passes
  leaves W \<^verbatim>\<open>waiting_approval\<close>; the admitted run of B with an executor that does not pass
  leaves B \<^verbatim>\<open>backlog\<close>.
\<close>

theorem fresh_run_final_status_witness:
  "\<not> has_running ''W'' world_W
   \<and> fst (runFeature impl_passes ''W'' world_W) = Inr True
   \<and> status_of ''W'' (snd (runFeature impl_passes ''W'' world_W)) = Some WaitingApproval
   \<and> \<not> has_running ''B'' world_busy
   \<and> status_of ''B'' (snd (startFeatureAsync impl_fails feature_B world_busy)) = Some Backlog"
proof -
  let ?w1 = "snd (runFeature_before ''W'' (set_running ''W'' world_W))"
  let ?v1 = "snd (startFeatureAsync_before feature_B (set_running ''B'' world_busy))"
  have h1: "\<not> has_running ''W'' world_W" and h1': "\<not> has_running ''B'' world_busy"
    by (simp_all add: example_defs service_defs)
  have h2: "runFeature_before ''W'' (set_running ''W'' world_W) = (Inr feature_W, ?w1)"
    by (simp add: prod_eq_iff runFeature_before_def example_defs service_defs)
  have h3: "impl_passes feature_W ?w1 = (Inr \<lparr>passes = True, message = ''done''\<rparr>, ?w1)"
    by (simp add: impl_passes_def return_io_def)
  have h4: "''W'' \<in> feature_id ` set (features ?w1)"
    by (simp add: runFeature_before_def example_defs service_defs)
  have k2: "startFeatureAsync_before feature_B (set_running (feature_id feature_B) world_busy)
              = (Inr (), ?v1)"
    by (simp add: prod_eq_iff startFeatureAsync_before_def example_defs service_defs)
  have k3: "impl_fails feature_B ?v1 = (Inr \<lparr>passes = False, message = ''tests fail''\<rparr>, ?v1)"
    by (simp add: impl_fails_def return_io_def)
  have k4: "feature_id feature_B \<in> feature_id ` set (features ?v1)"
    by (simp add: startFeatureAsync_before_def example_defs service_defs)
  have id: "feature_id feature_B = ''B''" "skipTests feature_W" "\<not> skipTests feature_B"
    by (simp_all add: example_defs)
  note t1 = fresh_run_final_status[where featureId = "''W''" and w = world_W
      and feature = feature_W and ?w1.0 = ?w1 and impl = impl_passes
      and result = "\<lparr>passes = True, message = ''done''\<rparr>" and ?w2.0 = ?w1]
  note t2 = fresh_run_final_status[where impl = impl_fails
      and g = feature_B and v = world_busy and ?v1.0 = ?v1
      and res = "\<lparr>passes = False, message = ''tests fail''\<rparr>" and ?v2.0 = ?v1]
  from t1 h1 h2 h3 h4 id
  have "fst (runFeature impl_passes ''W'' world_W) = Inr True
   \<and> status_of ''W'' (snd (runFeature impl_passes ''W'' world_W)) = Some WaitingApproval"
    by simp
  moreover from t2 h1' k2 k3 k4 id
  have "status_of ''B'' (snd (startFeatureAsync impl_fails feature_B world_busy)) = Some Backlog"
    by simp
  ultimately show ?thesis using h1 h1' by simp
qed

subsection \<open>C5: the status when the executor is called\<close>




subsection \<open>C6: operations on a feature that is running\<close>

text \<open>
  \<^verbatim>\<open>runFeature\<close>, \<^verbatim>\<open>resumeFeature\<close>, \<^verbatim>\<open>followUpFeature\<close> and \<^verbatim>\<open>verifyFeature\<close>
  reject a feature that has a handle, and change nothing.
\<close>

lemma guarded_operations_reject_running:
  "has_running featureId w \<Longrightarrow>
     runFeature impl featureId w = (Inl (AlreadyRunning featureId), w)
     \<and> resumeFeature resume featureId w = (Inl (AlreadyRunning featureId), w)
     \<and> followUpFeature resume featureId prompt imagePaths w = (Inl (AlreadyRunning featureId), w)
     \<and> verifyFeature verifier featureId w = (Inl (AlreadyRunning featureId), w)"
  by (simp add: runFeature_def runFeature_register_def resumeFeature_def
      resumeFeature_register_def followUpFeature_def followUpFeature_register_def
      verifyFeature_def verifyFeature_register_def bind_io_def throw_io_def)

text \<open>
  C6 fails for \<^verbatim>\<open>commitFeature\<close>, which has no such check. A is running; the commit for A
  is not rejected: it resolves, and its cleanup removes the handle of the run that was under
  way.
\<close>

theorem commitFeature_on_running_feature:
  "has_running ''A'' world_busy
   \<and> fst (commitFeature commit_ok ''A'' world_busy) = Inr ()
   \<and> fst (commitFeature commit_ok ''A'' world_busy) \<noteq> Inl (AlreadyRunning ''A'')
   \<and> \<not> has_running ''A'' (snd (commitFeature commit_ok ''A'' world_busy))
   \<and> status_of ''A'' (snd (commitFeature commit_ok ''A'' world_busy)) = Some Verified"
  by (simp add: commitFeature_def commitFeature_run_def commitFeature_before_def
      commitFeature_after_def example_defs service_defs)

subsection \<open>C7: the handle is released when the run ends\<close>

text \<open>
  C7. However the body of the \<^verbatim>\<open>try\<close> ends (for every executor, whether it resolves or
  throws, and whatever it does to the world), after the \<^verbatim>\<open>try/catch/finally\<close> of
  \<^verbatim>\<open>runFeature\<close>, \<^verbatim>\<open>startFeatureAsync\<close>, \<^verbatim>\<open>resumeFeature\<close>, \<^verbatim>\<open>runFollowUpWork\<close>,
  \<^verbatim>\<open>verifyFeature\<close> and \<^verbatim>\<open>commitFeature\<close> the feature has no handle in the registry;
  and deleting the handle of an id that has none changes nothing.
\<close>

theorem handle_released_when_run_ends:
  "\<not> has_running featureId (snd (runFeature_run impl featureId w))
   \<and> \<not> has_running (feature_id g) (snd (startFeatureAsync_run impl g w))
   \<and> \<not> has_running featureId (snd (resumeFeature_run resume featureId w))
   \<and> \<not> has_running featureId (snd (runFollowUpWork resume featureId prompt imagePaths w))
   \<and> \<not> has_running featureId (snd (verifyFeature_run verifier featureId w))
   \<and> \<not> has_running featureId (snd (commitFeature_run commit featureId w))
   \<and> (\<not> has_running featureId w \<longrightarrow> delete_running featureId w = w)"
  by (simp add: runFeature_run_def startFeatureAsync_run_def resumeFeature_run_def
      runFollowUpWork_def verifyFeature_run_def commitFeature_run_def finally_delete_running)
     (simp add: has_running_def delete_running_def)

text \<open>
  C7 where B is registered and the executor throws: the handle of B is gone after the run;
  and deleting the handle of B where only A is registered leaves the world as it was.
\<close>

theorem handle_released_when_run_ends_witness:
  "\<not> has_running ''B'' world_busy
   \<and> delete_running ''B'' world_busy = world_busy
   \<and> has_running ''B'' (set_running ''B'' world_busy)
   \<and> \<not> has_running ''B'' (snd (runFeature_run impl_throws ''B'' (set_running ''B'' world_busy)))"
proof -
  have h: "\<not> has_running ''B'' world_busy"
    and r: "has_running ''B'' (set_running ''B'' world_busy)"
    by (simp_all add: example_defs service_defs)
  note t1 = handle_released_when_run_ends[where featureId = "''B''" and w = world_busy]
  note t2 = handle_released_when_run_ends[where featureId = "''B''"
      and w = "set_running ''B'' world_busy" and impl = impl_throws]
  from t1 h have "delete_running ''B'' world_busy = world_busy" by simp
  moreover from t2
  have "\<not> has_running ''B'' (snd (runFeature_run impl_throws ''B'' (set_running ''B'' world_busy)))"
    by simp
  ultimately show ?thesis using h r by simp
qed

subsection \<open>C8: an executor that throws during an admitted run\<close>

text \<open>
  C8. In a run dispatched by the admission loop, when the executor throws \<open>e\<close> and leaves
  the world \<open>w2\<close>, the task resolves (nothing is thrown on), and the world it leaves is
  \<open>w2\<close> with the \<^verbatim>\<open>auto_mode_error\<close> message for the feature added to what the renderer
  received and the feature's handle deleted: the store is as the executor left it (no status
  is written after the error) and the handles of all other features are as they were. For
  every executor and every world, \<^verbatim>\<open>startFeatureAsync\<close> resolves, so the loop of the tick
  that calls it goes on to the next feature.
\<close>

theorem executor_error_is_contained:
  "(startFeatureAsync_before g w = (Inr (), w1) \<and> impl g w1 = (Inl e, w2) \<longrightarrow>
      startFeatureAsync_run impl g w =
        (Inr (), delete_running (feature_id g)
                   (w2\<lparr>sent := sent w2 @ [AutoModeError (error_message e) (feature_id g)]\<rparr>))
      \<and> features (snd (startFeatureAsync_run impl g w)) = features w2
      \<and> runningFeatures (snd (startFeatureAsync_run impl g w))
          = removeAll (feature_id g) (runningFeatures w2))
   \<and> fst (startFeatureAsync impl g v) = Inr ()"
proof (rule conjI)
  show "startFeatureAsync_before g w = (Inr (), w1) \<and> impl g w1 = (Inl e, w2) \<longrightarrow>
      startFeatureAsync_run impl g w =
        (Inr (), delete_running (feature_id g)
                   (w2\<lparr>sent := sent w2 @ [AutoModeError (error_message e) (feature_id g)]\<rparr>))
      \<and> features (snd (startFeatureAsync_run impl g w)) = features w2
      \<and> runningFeatures (snd (startFeatureAsync_run impl g w))
          = removeAll (feature_id g) (runningFeatures w2)"
    by (simp add: startFeatureAsync_run_def bind_io_def catch_io_def finally_io_def
        sendToRenderer_def delete_running_def)
next
  show "fst (startFeatureAsync impl g v) = Inr ()"
    by (simp add: startFeatureAsync_def startFeatureAsync_run_def finally_io_fst
        catch_send_resolves return_io_def)
qed

text \<open>
  C8 at the admitted run of B beside the running A, with an executor that throws: the task
  resolves, the error message is sent, B stays \<^verbatim>\<open>in_progress\<close> as written before the
  call, and only A remains registered.
\<close>

theorem executor_error_is_contained_witness:
  "fst (startFeatureAsync impl_throws feature_B world_busy) = Inr ()
   \<and> sent (snd (startFeatureAsync impl_throws feature_B world_busy))
       = [FeatureStart ''B'' feature_B, AutoModeError ''agent crashed'' ''B'']
   \<and> status_of ''B'' (snd (startFeatureAsync impl_throws feature_B world_busy)) = Some InProgress
   \<and> runningFeatures (snd (startFeatureAsync impl_throws feature_B world_busy)) = [''A'']"
proof -
  let ?w0 = "set_running ''B'' world_busy"
  let ?w1 = "snd (startFeatureAsync_before feature_B ?w0)"
  have id: "feature_id feature_B = ''B''" by (simp add: example_defs)
  have h1: "startFeatureAsync_before feature_B ?w0 = (Inr (), ?w1)"
    by (simp add: prod_eq_iff startFeatureAsync_before_def example_defs service_defs)
  have h2: "impl_throws feature_B ?w1 = (Inl (ExternalError ''agent crashed''), ?w1)"
    by (simp add: impl_throws_def throw_io_def)
  have w1: "sent ?w1 = [FeatureStart ''B'' feature_B] \<and> runningFeatures ?w1 = [''A'', ''B'']
            \<and> status_of ''B'' ?w1 = Some InProgress"
    by (simp add: startFeatureAsync_before_def example_defs service_defs)
  have s: "startFeatureAsync impl_throws feature_B world_busy
             = startFeatureAsync_run impl_throws feature_B ?w0"
    by (simp add: startFeatureAsync_def example_defs service_defs)
  note t = executor_error_is_contained[where g = feature_B and w = ?w0 and ?w1.0 = ?w1
      and impl = impl_throws and e = "ExternalError ''agent crashed''" and ?w2.0 = ?w1
      and v = world_busy]
  from t h1 h2 have
    r: "startFeatureAsync_run impl_throws feature_B ?w0 =
        (Inr (), delete_running (feature_id feature_B)
           (?w1\<lparr>sent := sent ?w1 @ [AutoModeError (error_message (ExternalError ''agent crashed''))
                                      (feature_id feature_B)]\<rparr>))"
    by blast
  from w1 show ?thesis unfolding s r id by (simp add: delete_running_def)
qed

subsection \<open>C9: the status after a commit\<close>

text \<open>
  C9, as amended. When \<^verbatim>\<open>commitFeature\<close> finds the feature, the commit action resolves and
  the feature is still in the store, the operation resolves and the status in the store is
  \<^verbatim>\<open>verified\<close>, whatever it was before; so only a feature that was \<^verbatim>\<open>verified\<close> keeps
  its status. When the commit action throws, the operation throws the same error and the
  store is as the commit action left it.
\<close>

theorem commit_sets_verified:
  "(commitFeature_before featureId (set_running featureId w) = (Inr feature, w1)
      \<and> commit feature w1 = (Inr (), w2)
      \<and> featureId \<in> feature_id ` set (features w2) \<longrightarrow>
    fst (commitFeature commit featureId w) = Inr ()
    \<and> status_of featureId (snd (commitFeature commit featureId w)) = Some Verified)
   \<and> (commitFeature_before featureId (set_running featureId w) = (Inr feature, w1)
        \<and> commit feature w1 = (Inl e, w2) \<longrightarrow>
      fst (commitFeature commit featureId w) = Inl e
      \<and> features (snd (commitFeature commit featureId w)) = features w2)"
proof (rule conjI; rule impI)
  assume a: "commitFeature_before featureId (set_running featureId w) = (Inr feature, w1)
      \<and> commit feature w1 = (Inr (), w2)
      \<and> featureId \<in> feature_id ` set (features w2)"
  then have s: "featureId \<in> feature_id ` set (features w2)" by simp
  from write_then_send_ok[OF s, of Verified
      "FeatureComplete (feature_id feature) True ''Changes committed successfully''"]
  obtain w3 where r: "commitFeature_after featureId feature w2 = (Inr (), w3)"
    and st: "status_of featureId w3 = Some Verified"
    unfolding commitFeature_after_def by blast
  have "commitFeature commit featureId w = (Inr (), delete_running featureId w3)"
    using a r
    by (simp add: commitFeature_def commitFeature_run_def bind_io_def catch_io_def
        finally_io_def)
  with st show "fst (commitFeature commit featureId w) = Inr ()
    \<and> status_of featureId (snd (commitFeature commit featureId w)) = Some Verified" by simp
next
  assume "commitFeature_before featureId (set_running featureId w) = (Inr feature, w1)
        \<and> commit feature w1 = (Inl e, w2)"
  then show "fst (commitFeature commit featureId w) = Inl e
      \<and> features (snd (commitFeature commit featureId w)) = features w2"
    by (simp add: commitFeature_def commitFeature_run_def bind_io_def catch_io_def
        finally_io_def sendToRenderer_def throw_io_def delete_running_def)
qed

text \<open>
  The amended C9 at W: a commit that resolves leaves W \<^verbatim>\<open>verified\<close>; a commit action
  that throws leaves the store as it was.
\<close>

theorem commit_sets_verified_witness:
  "fst (commitFeature commit_ok ''W'' world_W) = Inr ()
   \<and> status_of ''W'' (snd (commitFeature commit_ok ''W'' world_W)) = Some Verified
   \<and> fst (commitFeature commit_throws ''W'' world_W) = Inl (ExternalError ''nothing to commit'')
   \<and> features (snd (commitFeature commit_throws ''W'' world_W)) = features world_W"
proof -
  let ?w1 = "snd (commitFeature_before ''W'' (set_running ''W'' world_W))"
  have h1: "commitFeature_before ''W'' (set_running ''W'' world_W) = (Inr feature_W, ?w1)"
    by (simp add: prod_eq_iff commitFeature_before_def example_defs service_defs)
  have h2: "commit_ok feature_W ?w1 = (Inr (), ?w1)"
    by (simp add: commit_ok_def return_io_def)
  have h2': "commit_throws feature_W ?w1 = (Inl (ExternalError ''nothing to commit''), ?w1)"
    by (simp add: commit_throws_def throw_io_def)
  have h3: "''W'' \<in> feature_id ` set (features ?w1)" and f: "features ?w1 = features world_W"
    by (simp_all add: commitFeature_before_def example_defs service_defs)
  note t1 = commit_sets_verified[where featureId = "''W''" and w = world_W
      and feature = feature_W and ?w1.0 = ?w1 and commit = commit_ok and ?w2.0 = ?w1]
  note t2 = commit_sets_verified[where featureId = "''W''" and w = world_W
      and feature = feature_W and ?w1.0 = ?w1 and commit = commit_throws and ?w2.0 = ?w1
      and e = "ExternalError ''nothing to commit''"]
  from t1 h1 h2 h3 have "fst (commitFeature commit_ok ''W'' world_W) = Inr ()
   \<and> status_of ''W'' (snd (commitFeature commit_ok ''W'' world_W)) = Some Verified" by blast
  moreover from t2 h1 h2' have
    "fst (commitFeature commit_throws ''W'' world_W) = Inl (ExternalError ''nothing to commit'')
     \<and> features (snd (commitFeature commit_throws ''W'' world_W)) = features ?w1" by blast
  ultimately show ?thesis using f by simp
qed

text \<open>
  C9 as stated fails: W is \<^verbatim>\<open>waiting_approval\<close> before the commit and
  \<^verbatim>\<open>verified\<close> after it.
\<close>

theorem commit_changes_status:
  "status_of ''W'' world_W = Some WaitingApproval
   \<and> fst (commitFeature commit_ok ''W'' world_W) = Inr ()
   \<and> status_of ''W'' (snd (commitFeature commit_ok ''W'' world_W)) = Some Verified"
  by (simp add: commitFeature_def commitFeature_run_def commitFeature_before_def
      commitFeature_after_def example_defs service_defs)

subsection \<open>C10: the status after a verification\<close>

text \<open>
  C10. When \<^verbatim>\<open>verifyFeature\<close> is called for a feature that has no handle and is found,
  the verifier resolves with a result and the feature is still in the store, the operation
  resolves with \<^verbatim>\<open>passes\<close> and the status in the store is \<^verbatim>\<open>verified\<close> if the result
  passes and \<^verbatim>\<open>in_progress\<close> if it does not; the status the feature had before plays no
  part.
\<close>

theorem verify_sets_status:
  "\<not> has_running featureId w
   \<and> verifyFeature_before featureId (set_running featureId w) = (Inr feature, w1)
   \<and> verifier feature w1 = (Inr result, w2)
   \<and> featureId \<in> feature_id ` set (features w2) \<longrightarrow>
   fst (verifyFeature verifier featureId w) = Inr (passes result)
   \<and> status_of featureId (snd (verifyFeature verifier featureId w)) =
       Some (if passes result then Verified else InProgress)"
proof (rule impI)
  assume a: "\<not> has_running featureId w
   \<and> verifyFeature_before featureId (set_running featureId w) = (Inr feature, w1)
   \<and> verifier feature w1 = (Inr result, w2)
   \<and> featureId \<in> feature_id ` set (features w2)"
  let ?st = "if passes result then Verified else InProgress"
  from a have s: "featureId \<in> feature_id ` set (features w2)" by simp
  from write_then_send_value_ok[OF s, of ?st
      "FeatureComplete (feature_id feature) (passes result) (message result)" "passes result"]
  obtain w3 where r: "verifyFeature_after featureId feature result w2 = (Inr (passes result), w3)"
    and st: "status_of featureId w3 = Some ?st"
    unfolding verifyFeature_after_def Let_def by blast
  have "verifyFeature verifier featureId w = (Inr (passes result), delete_running featureId w3)"
    using a r
    by (simp add: verifyFeature_def verifyFeature_register_def verifyFeature_run_def bind_io_def
        catch_io_def finally_io_def)
  with st show "fst (verifyFeature verifier featureId w) = Inr (passes result)
    \<and> status_of featureId (snd (verifyFeature verifier featureId w)) = Some ?st" by simp
qed

text \<open>
  C10 at W (\<^verbatim>\<open>waiting_approval\<close>) with a verifier that does not pass, and at B
  (\<^verbatim>\<open>backlog\<close>) with one that passes.
\<close>

theorem verify_sets_status_witness:
  "\<not> has_running ''W'' world_W
   \<and> fst (verifyFeature impl_fails ''W'' world_W) = Inr False
   \<and> status_of ''W'' (snd (verifyFeature impl_fails ''W'' world_W)) = Some InProgress
   \<and> \<not> has_running ''B'' world_busy
   \<and> fst (verifyFeature impl_passes ''B'' world_busy) = Inr True
   \<and> status_of ''B'' (snd (verifyFeature impl_passes ''B'' world_busy)) = Some Verified"
proof -
  let ?w1 = "snd (verifyFeature_before ''W'' (set_running ''W'' world_W))"
  let ?v1 = "snd (verifyFeature_before ''B'' (set_running ''B'' world_busy))"
  have n: "\<not> has_running ''W'' world_W" "\<not> has_running ''B'' world_busy"
    by (simp_all add: example_defs service_defs)
  have h1: "verifyFeature_before ''W'' (set_running ''W'' world_W) = (Inr feature_W, ?w1)"
    by (simp add: prod_eq_iff verifyFeature_before_def example_defs service_defs)
  have h2: "impl_fails feature_W ?w1 = (Inr \<lparr>passes = False, message = ''tests fail''\<rparr>, ?w1)"
    by (simp add: impl_fails_def return_io_def)
  have h3: "''W'' \<in> feature_id ` set (features ?w1)"
    by (simp add: verifyFeature_before_def example_defs service_defs)
  have k1: "verifyFeature_before ''B'' (set_running ''B'' world_busy) = (Inr feature_B, ?v1)"
    by (simp add: prod_eq_iff verifyFeature_before_def example_defs service_defs)
  have k2: "impl_passes feature_B ?v1 = (Inr \<lparr>passes = True, message = ''done''\<rparr>, ?v1)"
    by (simp add: impl_passes_def return_io_def)
  have k3: "''B'' \<in> feature_id ` set (features ?v1)"
    by (simp add: verifyFeature_before_def example_defs service_defs)
  note t1 = verify_sets_status[where featureId = "''W''" and w = world_W
      and feature = feature_W and ?w1.0 = ?w1 and verifier = impl_fails
      and result = "\<lparr>passes = False, message = ''tests fail''\<rparr>" and ?w2.0 = ?w1]
  note t2 = verify_sets_status[where featureId = "''B''" and w = world_busy
      and feature = feature_B and ?w1.0 = ?v1 and verifier = impl_passes
      and result = "\<lparr>passes = True, message = ''done''\<rparr>" and ?w2.0 = ?v1]
  from t1 n h1 h2 h3 have "fst (verifyFeature impl_fails ''W'' world_W) = Inr False
   \<and> status_of ''W'' (snd (verifyFeature impl_fails ''W'' world_W)) = Some InProgress"
    by simp
  moreover from t2 n k1 k2 k3 have "fst (verifyFeature impl_passes ''B'' world_busy) = Inr True
   \<and> status_of ''B'' (snd (verifyFeature impl_passes ''B'' world_busy)) = Some Verified"
    by simp
  ultimately show ?thesis using n by simp
qed

end
